theory Spec2Isabelle
  imports Complex_Main "HOL-Library.Sublist"
begin

section \<open>Strings and numbers of the host language\<close>

text \<open>
  Strings are lists of 8-bit characters (the Latin-1 range of the source's code units);
  numbers that the code only ever uses as page numbers, counts and lengths are integers,
  and relevance scores are exact reals where the source computes in double precision.
\<close>

datatype error = Error (message: string)

text \<open>A number of the processing options: an integer or the not-a-number value.\<close>

datatype jsnum = NaN | Num int

definition isSpace :: "char \<Rightarrow> bool" where
  "isSpace c = (c \<in> set [CHR 0x09, CHR 0x0A, CHR 0x0B, CHR 0x0C, CHR 0x0D, CHR '' '', CHR 0xA0])"

definition isDigit :: "char \<Rightarrow> bool" where
  "isDigit c = (c \<in> set ''0123456789'')"

definition trim :: "string \<Rightarrow> string" where
  "trim s = rev (dropWhile isSpace (rev (dropWhile isSpace s)))"

text \<open>
  The capital letters of the character range, A to Z and the accented ones, and their
  small letters.
\<close>

definition upperLetters :: string where
  "upperLetters =
     ''ABCDEFGHIJKLMNOPQRSTUVWXYZ''
     @ [CHR 0xC0, CHR 0xC1, CHR 0xC2, CHR 0xC3, CHR 0xC4, CHR 0xC5, CHR 0xC6, CHR 0xC7,
        CHR 0xC8, CHR 0xC9, CHR 0xCA, CHR 0xCB, CHR 0xCC, CHR 0xCD, CHR 0xCE, CHR 0xCF,
        CHR 0xD0, CHR 0xD1, CHR 0xD2, CHR 0xD3, CHR 0xD4, CHR 0xD5, CHR 0xD6, CHR 0xD8,
        CHR 0xD9, CHR 0xDA, CHR 0xDB, CHR 0xDC, CHR 0xDD, CHR 0xDE]"

definition lowerLetters :: string where
  "lowerLetters =
     ''abcdefghijklmnopqrstuvwxyz''
     @ [CHR 0xE0, CHR 0xE1, CHR 0xE2, CHR 0xE3, CHR 0xE4, CHR 0xE5, CHR 0xE6, CHR 0xE7,
        CHR 0xE8, CHR 0xE9, CHR 0xEA, CHR 0xEB, CHR 0xEC, CHR 0xED, CHR 0xEE, CHR 0xEF,
        CHR 0xF0, CHR 0xF1, CHR 0xF2, CHR 0xF3, CHR 0xF4, CHR 0xF5, CHR 0xF6, CHR 0xF8,
        CHR 0xF9, CHR 0xFA, CHR 0xFB, CHR 0xFC, CHR 0xFD, CHR 0xFE]"

definition toLowerChar :: "char \<Rightarrow> char" where
  "toLowerChar c =
     (case map_of (zip upperLetters lowerLetters) c of
        Some l \<Rightarrow> l
      | None \<Rightarrow> c)"

definition toLowerCase :: "string \<Rightarrow> string" where
  "toLowerCase s = map toLowerChar s"

text \<open>\<open>anySuffix P s\<close>: some position of \<open>s\<close> starts a match of \<open>P\<close>.\<close>

fun anySuffix :: "(string \<Rightarrow> bool) \<Rightarrow> string \<Rightarrow> bool" where
  "anySuffix P [] = P []"
| "anySuffix P (c # cs) = (P (c # cs) \<or> anySuffix P cs)"

text \<open>\<open>str_includes t s\<close> is the source's \<open>t.includes(s)\<close>.\<close>

definition str_includes :: "string \<Rightarrow> string \<Rightarrow> bool" where
  "str_includes t s = anySuffix (prefix s) t"

fun join :: "string \<Rightarrow> string list \<Rightarrow> string" where
  "join sep [] = []"
| "join sep [s] = s"
| "join sep (s # t # ss) = s @ sep @ join sep (t # ss)"

definition digit_char :: "nat \<Rightarrow> char" where
  "digit_char d = ''0123456789'' ! d"

fun string_of_nat :: "nat \<Rightarrow> string" where
  "string_of_nat n =
     (if n < 10 then [digit_char n] else string_of_nat (n div 10) @ [digit_char (n mod 10)])"

definition string_of_int :: "int \<Rightarrow> string" where
  "string_of_int i = (if i < 0 then CHR ''-'' # string_of_nat (nat (- i)) else string_of_nat (nat i))"

text \<open>\<open>toFixed(3)\<close> on a non-negative number: three decimals, rounded half up.\<close>

definition pad3 :: "nat \<Rightarrow> string" where
  "pad3 n = [digit_char (n div 100 mod 10), digit_char (n div 10 mod 10), digit_char (n mod 10)]"

definition toFixed3 :: "real \<Rightarrow> string" where
  "toFixed3 r =
     (let n = nat \<lfloor>r * 1000 + 1 / 2\<rfloor>
      in string_of_nat (n div 1000) @ ''.'' @ pad3 (n mod 1000))"

text \<open>\<open>words s\<close> is \<open>s.split(/\s+/).filter((w) => w.length > 0)\<close>.\<close>

function words :: "string \<Rightarrow> string list" where
  "words s =
     (let t = dropWhile isSpace s
      in if t = [] then []
         else takeWhile (\<lambda>c. \<not> isSpace c) t # words (dropWhile (\<lambda>c. \<not> isSpace c) t))"
  by pat_completeness auto
termination
proof (relation "measure length")
  show "wf (measure length)" by simp
next
  fix s t :: string
  assume t: "t = dropWhile isSpace s" and ne: "t \<noteq> []"
  have "length (dropWhile (\<lambda>c. \<not> isSpace c) t) < length t"
  proof (cases t)
    case Nil
    with ne show ?thesis by simp
  next
    case (Cons c cs)
    have "\<not> isSpace (hd (dropWhile isSpace s))"
      using hd_dropWhile [of isSpace s] t ne by blast
    then have "\<not> isSpace c"
      using t Cons by (metis list.sel(1))
    then have "dropWhile (\<lambda>c. \<not> isSpace c) t = dropWhile (\<lambda>c. \<not> isSpace c) cs"
      using Cons by simp
    then show ?thesis
      using Cons length_dropWhile_le [of "\<lambda>c. \<not> isSpace c" cs] by simp
  qed
  moreover have "length t \<le> length s"
    using t length_dropWhile_le [of isSpace s] by simp
  ultimately show "(dropWhile (\<lambda>c. \<not> isSpace c) t, s) \<in> measure length" by simp
qed

text \<open>\<open>collapseSpaces s\<close> is \<open>s.replace(/\s+/g, " ")\<close>.\<close>

function collapseSpaces :: "string \<Rightarrow> string" where
  "collapseSpaces [] = []"
| "collapseSpaces (c # cs) =
     (if isSpace c then CHR '' '' # collapseSpaces (dropWhile isSpace cs)
      else c # collapseSpaces cs)"
  by pat_completeness auto
termination
  by (relation "measure length") (auto simp: length_dropWhile_le less_Suc_eq_le)

section \<open>Data model of the selective parser\<close>

datatype section_type = Header | Paragraph | ListItem | Table | Footer

record Position =
  pos_x :: real
  pos_y :: real
  pos_width :: real
  pos_height :: real

record TextSection =
  section_type :: section_type
  section_content :: string
  level :: "nat option"
  position :: Position

record PageMetadata =
  wordCount :: nat
  avgWordLength :: real
  hasNumbers :: bool
  hasReferences :: bool
  textDensity :: real

text \<open>What \<open>extractPageWithStructure\<close> returns for one page.\<close>

record PageStructure =
  content :: string
  sections :: "TextSection list"
  hasImages :: bool
  metadata :: PageMetadata

record PageContent = PageStructure +
  pageNum :: int
  relevance :: real

record PDFSection =
  title :: string
  startPage :: int
  endPage :: int
  sec_content :: string
  confidence :: real

record PDFProcessingOptions =
  pageRange :: "(int \<times> int) option"
  maxPages :: "jsnum option"
  searchTerms :: "string list option"
  chapters :: "string list option"
  maxCharacters :: "jsnum option"
  sectionPattern :: "string option"
  contextWindow :: "jsnum option"
  minRelevanceScore :: "real option"
  extractImages :: "bool option"
  preserveStructure :: "bool option"

definition noOptions :: PDFProcessingOptions where
  "noOptions =
     \<lparr>pageRange = None, maxPages = None, searchTerms = None, chapters = None,
      maxCharacters = None, sectionPattern = None, contextWindow = None,
      minRelevanceScore = None,
      extractImages = None, preserveStructure = None\<rparr>"

text \<open>\<open>orDefault v d\<close> is \<open>v || d\<close> on an optional number: unset, NaN and 0 give the default.\<close>

definition orDefault :: "jsnum option \<Rightarrow> int \<Rightarrow> int" where
  "orDefault v d = (case v of Some (Num n) \<Rightarrow> (if n = 0 then d else n) | _ \<Rightarrow> d)"

definition DEFAULT_MAX_PAGES :: int where "DEFAULT_MAX_PAGES = 50"
definition DEFAULT_MAX_CHARACTERS :: int where "DEFAULT_MAX_CHARACTERS = 100000"
definition DEFAULT_CONTEXT_WINDOW :: int where "DEFAULT_CONTEXT_WINDOW = 2"
definition DEFAULT_MIN_RELEVANCE :: real where "DEFAULT_MIN_RELEVANCE = 1 / 100"

section \<open>The document-rendering collaborator\<close>

text \<open>
  A loaded document gives its page count and, for a page number, either no page (any
  failure while fetching the page or reading its text items) or the strings of the page's
  text items, the typed sections that \<open>parseTextStructure\<close> makes of them, and whether
  the page paints an image.
  The outline is absent, unreadable or a list of titled destinations; a destination is
  either not an array or a page reference that \<open>getPageIndex\<close> resolves or rejects.
\<close>

record PDFPage =
  page_items :: "string list"
  page_sections :: "TextSection list"
  page_paints_image :: bool

record OutlineItem =
  item_title :: string
  item_dest :: "nat option"

record PDFDocument =
  numPages :: int
  getPage :: "int \<Rightarrow> PDFPage option"
  getOutline :: "error + OutlineItem list option"
  getPageIndex :: "nat \<Rightarrow> error + int"

section \<open>Structural page parser\<close>

definition renderSection :: "TextSection \<Rightarrow> string" where
  "renderSection s =
     (case section_type s of
        Header \<Rightarrow> ''\<newline>\<newline>## '' @ section_content s @ ''\<newline>''
      | ListItem \<Rightarrow> ''\<newline>- '' @ section_content s
      | Table \<Rightarrow> ''\<newline>\<newline>'' @ section_content s @ ''\<newline>''
      | Footer \<Rightarrow> ''\<newline>---\<newline>'' @ section_content s @ ''\<newline>---\<newline>''
      | Paragraph \<Rightarrow> ''\<newline>'' @ section_content s)"

definition combineTextSections :: "TextSection list \<Rightarrow> bool option \<Rightarrow> string" where
  "combineTextSections secs preserve =
     (if preserve \<noteq> Some True
      then trim (collapseSpaces (join '' '' (map section_content secs)))
      else trim (concat (map renderSection secs)))"

definition bracketRef :: "string \<Rightarrow> bool" where
  "bracketRef t =
     (case t of
        c # r \<Rightarrow> c = CHR ''['' \<and> takeWhile isDigit r \<noteq> [] \<and>
                 (case dropWhile isDigit r of d # _ \<Rightarrow> d = CHR '']'' | [] \<Rightarrow> False)
      | [] \<Rightarrow> False)"

definition yearRef :: "string \<Rightarrow> bool" where
  "yearRef t =
     (case t of
        p # a # b # c # d # q # _ \<Rightarrow>
          p = CHR ''('' \<and> isDigit a \<and> isDigit b \<and> isDigit c \<and> isDigit d \<and> q = CHR '')''
      | _ \<Rightarrow> False)"

definition analyzePageMetadata :: "string \<Rightarrow> TextSection list \<Rightarrow> PageMetadata" where
  "analyzePageMetadata c secs =
     (let ws = words c;
          n = length ws
      in \<lparr>wordCount = n,
          avgWordLength = (if n = 0 then 0 else real (sum_list (map length ws)) / real n),
          hasNumbers = (\<exists>ch \<in> set c. isDigit ch),
          hasReferences = (anySuffix bracketRef c \<or> anySuffix yearRef c \<or> str_includes c ''et al.''),
          textDensity = real n / real (max (length c) 1)\<rparr>)"

definition extractPageWithStructure ::
  "PDFDocument \<Rightarrow> int \<Rightarrow> PDFProcessingOptions \<Rightarrow> PageStructure option" where
  "extractPageWithStructure pdf n opts =
     (case getPage pdf n of
        None \<Rightarrow> None
      | Some page \<Rightarrow>
          (let secs = page_sections page;
               c = combineTextSections secs (preserveStructure opts)
           in Some \<lparr>content = c, sections = secs,
                    hasImages = (if extractImages opts = Some True then page_paints_image page else False),
                    metadata = analyzePageMetadata c secs\<rparr>))"

text \<open>A page with its number and relevance, as the loops push it.\<close>

definition pageEntry :: "int \<Rightarrow> PageStructure \<Rightarrow> real \<Rightarrow> PageContent" where
  "pageEntry n p r =
     \<lparr>content = content p, sections = sections p, hasImages = hasImages p,
      metadata = metadata p, pageNum = n, relevance = r\<rparr>"

text \<open>The loop of \<open>extractPagesWithStructure\<close> over the page numbers still to visit.\<close>

fun pagesLoop :: "PDFDocument \<Rightarrow> PDFProcessingOptions \<Rightarrow> int list \<Rightarrow> PageContent list" where
  "pagesLoop pdf opts [] = []"
| "pagesLoop pdf opts (n # ns) =
     (case extractPageWithStructure pdf n opts of
        None \<Rightarrow> pagesLoop pdf opts ns
      | Some p \<Rightarrow> pageEntry n p 1 # pagesLoop pdf opts ns)"

definition extractPagesWithStructure ::
  "PDFDocument \<Rightarrow> int \<Rightarrow> int \<Rightarrow> PDFProcessingOptions \<Rightarrow> PageContent list" where
  "extractPagesWithStructure pdf startP endP opts = pagesLoop pdf opts [startP..endP]"

section \<open>Content formatter\<close>

definition pageHeader :: "PageContent \<Rightarrow> string" where
  "pageHeader page =
     ''\<newline>\<newline>--- Page '' @ string_of_int (pageNum page)
       @ (if relevance page < 1 then '' (Relevance: '' @ toFixed3 (relevance page) @ '')'' else [])
       @ (if hasImages page then '' [Contains Images]'' else [])
       @ '' ---\<newline>''"

definition formatExtractedContent :: "PageContent list \<Rightarrow> PDFProcessingOptions \<Rightarrow> string" where
  "formatExtractedContent pages opts =
     (if pages = [] then []
      else trim (concat (map (\<lambda>page. pageHeader page @ content page) pages)))"

section \<open>Explicit page-range strategy\<close>

text \<open>The range the strategy processes: \<open>(actualStart, actualEnd)\<close>.\<close>

definition actualRange :: "PDFDocument \<Rightarrow> int \<times> int \<Rightarrow> int \<times> int" where
  "actualRange pdf pr = (max 1 (fst pr), min (snd pr) (numPages pdf))"

definition extractByPageRange ::
  "PDFDocument \<Rightarrow> int \<times> int \<Rightarrow> PDFProcessingOptions \<Rightarrow> string" where
  "extractByPageRange pdf pr opts =
     (let (actualStart, actualEnd) = actualRange pdf pr
      in formatExtractedContent (extractPagesWithStructure pdf actualStart actualEnd opts) opts)"

section \<open>Relevance scorer\<close>

text \<open>
  The scorer counts matches with the host's regular-expression engine, built from the
  search term: \<open>matchCount pattern text\<close> is the number of matches of the pattern in the
  text under the global flag, or the error the engine raises for an invalid pattern.
  The score is not-a-number (\<open>None\<close>) where the source divides zero by zero.
\<close>

type_synonym regex_engine = "string \<Rightarrow> string \<Rightarrow> error + nat"

fun indexOf :: "string \<Rightarrow> string \<Rightarrow> nat option" where
  "indexOf [] s = (if s = [] then Some 0 else None)"
| "indexOf (c # cs) s = (if prefix s (c # cs) then Some 0 else map_option Suc (indexOf cs s))"

fun headerMatches :: "regex_engine \<Rightarrow> string \<Rightarrow> TextSection list \<Rightarrow> error + nat" where
  "headerMatches matchCount pat [] = Inr 0"
| "headerMatches matchCount pat (s # ss) =
     (case matchCount pat (toLowerCase (section_content s)) of
        Inl e \<Rightarrow> Inl e
      | Inr k \<Rightarrow>
          (case headerMatches matchCount pat ss of
             Inl e \<Rightarrow> Inl e
           | Inr r \<Rightarrow> Inr (k + r)))"

definition termScore :: "regex_engine \<Rightarrow> PageStructure \<Rightarrow> string \<Rightarrow> error + real option" where
  "termScore matchCount page term =
     (let text = toLowerCase (content page);
          lowerTerm = toLowerCase term
      in case matchCount lowerTerm text of
           Inl e \<Rightarrow> Inl e
         | Inr matches \<Rightarrow>
             (case (if CHR '' '' \<in> set term then matchCount lowerTerm text else Inr 0) of
                Inl e \<Rightarrow> Inl e
              | Inr phraseMatches \<Rightarrow>
                  (case headerMatches matchCount lowerTerm
                          (filter (\<lambda>s. section_type s = Header) (sections page)) of
                     Inl e \<Rightarrow> Inl e
                   | Inr hm \<Rightarrow>
                       (let base = real matches * ln (real (length term) + 1)
                                     + real phraseMatches * 2 + real hm * 3
                        in case indexOf text lowerTerm of
                             None \<Rightarrow> Inr (Some base)
                           | Some i \<Rightarrow>
                               if text = [] then Inr None
                               else Inr (Some (base * (1 - real i / real (length text) * (1 / 2))))))))"

fun scoreLoop :: "regex_engine \<Rightarrow> PageStructure \<Rightarrow> string list \<Rightarrow> real option \<Rightarrow> error + real option" where
  "scoreLoop matchCount page [] score = Inr score"
| "scoreLoop matchCount page (term # terms) score =
     (case termScore matchCount page term of
        Inl e \<Rightarrow> Inl e
      | Inr ts \<Rightarrow>
          scoreLoop matchCount page terms
            (case (score, ts) of (Some a, Some b) \<Rightarrow> Some (a + b) | _ \<Rightarrow> None))"

definition calculateEnhancedRelevance ::
  "regex_engine \<Rightarrow> PageStructure \<Rightarrow> string list \<Rightarrow> error + real option" where
  "calculateEnhancedRelevance matchCount page terms =
     (case scoreLoop matchCount page terms (Some 0) of
        Inl e \<Rightarrow> Inl e
      | Inr None \<Rightarrow> Inr None
      | Inr (Some score) \<Rightarrow>
          (let n0 = score / real (max (length (content page)) 1);
               n1 = (if hasReferences (metadata page) then n0 * (12 / 10) else n0);
               n2 = (if textDensity (metadata page) > 1 / 2 then n1 * (11 / 10) else n1);
               n3 = (if wordCount (metadata page) > 100 then n2 * (11 / 10) else n2)
           in Inr (Some n3)))"

section \<open>Search strategy\<close>

text \<open>\<open>slice0 e xs\<close> is \<open>xs.slice(0, e)\<close>: a negative end counts from the end of the list.\<close>

definition slice0 :: "int \<Rightarrow> 'a list \<Rightarrow> 'a list" where
  "slice0 e xs = (if e < 0 then take (nat (int (length xs) + e)) xs else take (nat e) xs)"

text \<open>A set of the host language keeps its members in insertion order, once each.\<close>

definition set_add :: "int \<Rightarrow> int list \<Rightarrow> int list" where
  "set_add n s = (if n \<in> set s then s else s @ [n])"

definition addContext :: "int \<Rightarrow> int list \<Rightarrow> int \<Rightarrow> int list" where
  "addContext p s i = set_add (p + i) (set_add (p - i) s)"

definition selectNumbers :: "PageContent list \<Rightarrow> int \<Rightarrow> int list" where
  "selectNumbers topPages window =
     fold (\<lambda>page s. fold (\<lambda>i s'. addContext (pageNum page) s' i) [1..window]
                      (set_add (pageNum page) s))
          topPages []"

definition selectPagesWithContext :: "PageContent list \<Rightarrow> int \<Rightarrow> int \<Rightarrow> PageContent list" where
  "selectPagesWithContext pageAnalysis maxP window =
     (let topPages = slice0 (min maxP (int (length pageAnalysis))) pageAnalysis;
          selected = selectNumbers topPages window;
          allPageNums = sort (filter (\<lambda>n. n > 0) selected);
          result = List.map_filter (\<lambda>n. find (\<lambda>p. pageNum p = n) pageAnalysis)
                     (slice0 maxP allPageNums)
      in sort_key pageNum result)"

text \<open>The first pass over the page numbers still to visit: parse, score, keep the relevant.\<close>

fun analysisLoop ::
  "regex_engine \<Rightarrow> PDFDocument \<Rightarrow> string list \<Rightarrow> PDFProcessingOptions \<Rightarrow> real \<Rightarrow> int list
     \<Rightarrow> error + PageContent list" where
  "analysisLoop matchCount pdf terms opts minRelevance [] = Inr []"
| "analysisLoop matchCount pdf terms opts minRelevance (n # ns) =
     (case extractPageWithStructure pdf n opts of
        None \<Rightarrow> analysisLoop matchCount pdf terms opts minRelevance ns
      | Some p \<Rightarrow>
          (case calculateEnhancedRelevance matchCount p terms of
             Inl e \<Rightarrow> Inl e
           | Inr r \<Rightarrow>
               (case analysisLoop matchCount pdf terms opts minRelevance ns of
                  Inl e \<Rightarrow> Inl e
                | Inr rest \<Rightarrow>
                    (case r of
                       Some rel \<Rightarrow> Inr (if rel \<ge> minRelevance then pageEntry n p rel # rest else rest)
                     | None \<Rightarrow> Inr rest))))"

definition minRelevanceOf :: "PDFProcessingOptions \<Rightarrow> real" where
  "minRelevanceOf opts =
     (case minRelevanceScore opts of
        Some r \<Rightarrow> (if r = 0 then DEFAULT_MIN_RELEVANCE else r)
      | None \<Rightarrow> DEFAULT_MIN_RELEVANCE)"

text \<open>The pages the search strategy selects, before they are formatted.\<close>

definition intelligentSearchPages ::
  "regex_engine \<Rightarrow> PDFDocument \<Rightarrow> string list \<Rightarrow> PDFProcessingOptions \<Rightarrow> error + PageContent list" where
  "intelligentSearchPages matchCount pdf terms opts =
     (let maxP = orDefault (maxPages opts) DEFAULT_MAX_PAGES;
          cw = orDefault (contextWindow opts) DEFAULT_CONTEXT_WINDOW;
          minRelevance = minRelevanceOf opts
      in case analysisLoop matchCount pdf terms opts minRelevance [1..numPages pdf] of
           Inl e \<Rightarrow> Inl e
         | Inr pageAnalysis \<Rightarrow>
             Inr (selectPagesWithContext (sort_key (\<lambda>p. - relevance p) pageAnalysis) maxP cw))"

definition extractByIntelligentSearch ::
  "regex_engine \<Rightarrow> PDFDocument \<Rightarrow> string list \<Rightarrow> PDFProcessingOptions \<Rightarrow> error + string" where
  "extractByIntelligentSearch matchCount pdf terms opts =
     (case intelligentSearchPages matchCount pdf terms opts of
        Inl e \<Rightarrow> Inl e
      | Inr selectedPages \<Rightarrow> Inr (formatExtractedContent selectedPages opts))"

section \<open>Sequential bounded extraction\<close>

text \<open>
  The loop of \<open>extractWithIntelligentLimits\<close>: the page numbers still to visit, the pages
  pushed so far and the running character count; it returns both when it leaves the loop.
\<close>

fun limitsLoop ::
  "PDFDocument \<Rightarrow> PDFProcessingOptions \<Rightarrow> int \<Rightarrow> int list \<Rightarrow> PageContent list \<Rightarrow> int
     \<Rightarrow> PageContent list \<times> int" where
  "limitsLoop pdf opts maxChars [] pages charCount = (pages, charCount)"
| "limitsLoop pdf opts maxChars (n # ns) pages charCount =
     (case extractPageWithStructure pdf n opts of
        None \<Rightarrow> limitsLoop pdf opts maxChars ns pages charCount
      | Some p \<Rightarrow>
          (let pageSize = int (length (content p))
           in if charCount + pageSize > maxChars then (pages, charCount)
              else limitsLoop pdf opts maxChars ns (pages @ [pageEntry n p 1])
                     (charCount + pageSize)))"

definition truncationNotice :: "int \<Rightarrow> int \<Rightarrow> string" where
  "truncationNotice maxChars totalPages =
     ''\<newline>\<newline>[... Truncated at '' @ string_of_int maxChars
       @ '' characters. Total pages in PDF: '' @ string_of_int totalPages @ '' ...]''"

definition extractWithIntelligentLimits ::
  "PDFDocument \<Rightarrow> int \<Rightarrow> int \<Rightarrow> PDFProcessingOptions \<Rightarrow> string" where
  "extractWithIntelligentLimits pdf maxP maxChars opts =
     (let actualMaxPages = min maxP (numPages pdf);
          (pages, charCount) = limitsLoop pdf opts maxChars [1..actualMaxPages] [] 0;
          result = formatExtractedContent pages opts
      in if charCount \<ge> maxChars then result @ truncationNotice maxChars (numPages pdf)
         else result)"

section \<open>Fuzzy chapter matching\<close>

definition initMatrix :: "nat \<Rightarrow> nat \<Rightarrow> nat list list" where
  "initMatrix len1 len2 =
     (let m0 = replicate (len2 + 1) (replicate (len1 + 1) 0);
          m1 = fold (\<lambda>i m. m[0 := (m ! 0)[i := i]]) [0..<len1 + 1] m0
      in fold (\<lambda>j m. m[j := (m ! j)[0 := j]]) [0..<len2 + 1] m1)"

definition cellStep :: "string \<Rightarrow> string \<Rightarrow> nat \<Rightarrow> nat \<Rightarrow> nat list list \<Rightarrow> nat list list" where
  "cellStep str1 str2 j i m =
     (let substitutionCost = (if str1 ! (i - 1) = str2 ! (j - 1) then 0 else 1)
      in m[j := (m ! j)[i := min (min (m ! j ! (i - 1) + 1) (m ! (j - 1) ! i + 1))
                                 (m ! (j - 1) ! (i - 1) + substitutionCost)]])"

definition levenshteinDistance :: "string \<Rightarrow> string \<Rightarrow> nat" where
  "levenshteinDistance str1 str2 =
     (let m = fold (\<lambda>j m. fold (\<lambda>i m'. cellStep str1 str2 j i m') [1..<length str1 + 1] m)
                [1..<length str2 + 1] (initMatrix (length str1) (length str2))
      in m ! length str2 ! length str1)"

text \<open>
  The similarity is compared in exact arithmetic. In the source's double precision the
  comparison with 0.6 comes out the same: \<open>1 - d / m\<close> rounds to the double of 0.6 or
  above exactly when \<open>5 d \<le> 2 m\<close>, for every length \<open>m\<close> a string can have.
\<close>

definition fuzzyMatchAt :: "string \<Rightarrow> string \<Rightarrow> real \<Rightarrow> bool" where
  "fuzzyMatchAt text1 text2 threshold =
     (let t1 = trim (toLowerCase text1);
          t2 = trim (toLowerCase text2)
      in if str_includes t1 t2 \<or> str_includes t2 t1 then True
         else (let maxLen = max (length t1) (length t2);
                   distance = levenshteinDistance t1 t2;
                   similarity = 1 - real distance / real maxLen
               in similarity \<ge> threshold))"

definition fuzzyMatch :: "string \<Rightarrow> string \<Rightarrow> bool" where
  "fuzzyMatch text1 text2 = fuzzyMatchAt text1 text2 (6 / 10)"

text \<open>
  The Levenshtein distance by its recurrence: \<open>prefixDistance s t i j\<close> is the distance of
  the first \<open>i\<close> characters of \<open>s\<close> and the first \<open>j\<close> characters of \<open>t\<close>.
\<close>

fun prefixDistance :: "string \<Rightarrow> string \<Rightarrow> nat \<Rightarrow> nat \<Rightarrow> nat" where
  "prefixDistance s t 0 j = j"
| "prefixDistance s t (Suc i) 0 = Suc i"
| "prefixDistance s t (Suc i) (Suc j) =
     min (min (prefixDistance s t i (Suc j) + 1) (prefixDistance s t (Suc i) j + 1))
         (prefixDistance s t i j + (if s ! i = t ! j then 0 else 1))"

definition editDistance :: "string \<Rightarrow> string \<Rightarrow> nat" where
  "editDistance s t = prefixDistance s t (length s) (length t)"

text \<open>A matrix of \<open>n2 + 1\<close> rows of \<open>n1 + 1\<close> cells.\<close>

definition shape :: "nat \<Rightarrow> nat \<Rightarrow> nat list list \<Rightarrow> bool" where
  "shape n1 n2 m = (length m = Suc n2 \<and> (\<forall>row \<in> set m. length row = Suc n1))"

text \<open>
  The matrix has its shape, and the cells before row \<open>J\<close>, those of row \<open>J\<close> up to column
  \<open>K\<close> and the first column hold the distances of the prefixes.
\<close>

definition filled :: "string \<Rightarrow> string \<Rightarrow> nat list list \<Rightarrow> nat \<Rightarrow> nat \<Rightarrow> bool" where
  "filled s t m J K =
     (shape (length s) (length t) m \<and>
      (\<forall>j \<le> length t. \<forall>i \<le> length s.
         (j < J \<or> (j = J \<and> i \<le> K) \<or> i = 0) \<longrightarrow> m ! j ! i = prefixDistance s t i j))"

section \<open>Outline and chapter resolver\<close>

definition isUpper :: "char \<Rightarrow> bool" where
  "isUpper c = (c \<in> set ''ABCDEFGHIJKLMNOPQRSTUVWXYZ'')"

text \<open>
  The five \<open>SECTION_PATTERNS\<close>, in the source's order:
  \<^verbatim>\<open>/^(?:chapter|section|part)\s+\d+/i\<close>, \<^verbatim>\<open>/^\d+\.?\s+[A-Z][^.]*$/\<close>,
  \<^verbatim>\<open>/^[A-Z][A-Z\s]{2,}$/\<close> and the two lists of section names, matched at the start
  without regard to case.
\<close>

definition numberedPart :: "string \<Rightarrow> bool" where
  "numberedPart s =
     (\<exists>kw \<in> set [''chapter'', ''section'', ''part''].
        prefix kw (toLowerCase s) \<and>
        (case drop (length kw) s of
           [] \<Rightarrow> False
         | c # r \<Rightarrow> isSpace c \<and> (case dropWhile isSpace r of d # _ \<Rightarrow> isDigit d | [] \<Rightarrow> False)))"

definition numberedHeading :: "string \<Rightarrow> bool" where
  "numberedHeading s =
     (takeWhile isDigit s \<noteq> [] \<and>
      (let r1 = dropWhile isDigit s;
           r2 = (case r1 of c # r \<Rightarrow> if c = CHR ''.'' then r else r1 | [] \<Rightarrow> r1)
       in case r2 of
            [] \<Rightarrow> False
          | c # r \<Rightarrow>
              isSpace c \<and>
              (case dropWhile isSpace r of
                 u # rest \<Rightarrow> isUpper u \<and> CHR ''.'' \<notin> set rest
               | [] \<Rightarrow> False)))"

definition capitalLine :: "string \<Rightarrow> bool" where
  "capitalLine s =
     (case s of
        [] \<Rightarrow> False
      | u # rest \<Rightarrow> isUpper u \<and> length rest \<ge> 2 \<and> (\<forall>c \<in> set rest. isUpper c \<or> isSpace c))"

definition namedSection :: "string \<Rightarrow> bool" where
  "namedSection s =
     (\<exists>kw \<in> set [''introduction'', ''conclusion'', ''abstract'', ''references'',
                   ''bibliography'', ''appendix''].
        prefix kw (toLowerCase s))"

definition namedPart :: "string \<Rightarrow> bool" where
  "namedPart s =
     (\<exists>kw \<in> set [''method'', ''results'', ''discussion'', ''related work'', ''background''].
        prefix kw (toLowerCase s))"

definition matchesSectionPattern :: "string \<Rightarrow> bool" where
  "matchesSectionPattern s =
     (numberedPart s \<or> numberedHeading s \<or> capitalLine s \<or> namedSection s \<or> namedPart s)"

definition getPageFromDest :: "PDFDocument \<Rightarrow> nat option \<Rightarrow> int" where
  "getPageFromDest pdf dest =
     (case dest of
        None \<Rightarrow> 1
      | Some pageRef \<Rightarrow> (case getPageIndex pdf pageRef of Inl e \<Rightarrow> 1 | Inr pageIndex \<Rightarrow> pageIndex + 1))"

fun outlineSections :: "PDFDocument \<Rightarrow> OutlineItem list \<Rightarrow> PDFSection list" where
  "outlineSections pdf [] = []"
| "outlineSections pdf (item # rest) =
     \<lparr>title = item_title item,
      startPage = getPageFromDest pdf (item_dest item),
      endPage = (case rest of
                   [] \<Rightarrow> numPages pdf
                 | nextItem # _ \<Rightarrow> getPageFromDest pdf (item_dest nextItem) - 1),
      sec_content = [],
      confidence = 1\<rparr> # outlineSections pdf rest"

definition extractEnhancedOutline :: "PDFDocument \<Rightarrow> PDFSection list" where
  "extractEnhancedOutline pdf =
     (case getOutline pdf of
        Inl e \<Rightarrow> []
      | Inr None \<Rightarrow> []
      | Inr (Some outline) \<Rightarrow> outlineSections pdf outline)"

definition headersOf :: "PageStructure \<Rightarrow> TextSection list" where
  "headersOf p = filter (\<lambda>s. section_type s = Header) (sections p)"

text \<open>
  The scan of \<open>detectSectionsFromText\<close>: the sections closed so far and the one still open;
  a matching header closes the open section on the page before and opens the next one.
\<close>

definition headerStep ::
  "PDFDocument \<Rightarrow> int \<Rightarrow> TextSection \<Rightarrow> PDFSection list \<times> PDFSection option
     \<Rightarrow> PDFSection list \<times> PDFSection option" where
  "headerStep pdf n header st =
     (if matchesSectionPattern (section_content header)
      then ((case snd st of
               None \<Rightarrow> fst st
             | Some cur \<Rightarrow> fst st @ [cur\<lparr>endPage := n - 1\<rparr>]),
            Some \<lparr>title = section_content header, startPage = n, endPage = numPages pdf,
                  sec_content = [], confidence = 8 / 10\<rparr>)
      else st)"

definition detectSectionsFromText :: "PDFDocument \<Rightarrow> PDFProcessingOptions \<Rightarrow> PDFSection list" where
  "detectSectionsFromText pdf opts =
     (let maxSamplePages = min 20 (numPages pdf);
          st = fold (\<lambda>n st. case extractPageWithStructure pdf n opts of
                               None \<Rightarrow> st
                             | Some p \<Rightarrow> fold (headerStep pdf n) (headersOf p) st)
                 [1..maxSamplePages] ([], None)
      in case snd st of None \<Rightarrow> fst st | Some cur \<Rightarrow> fst st @ [cur])"

definition detectChaptersInText ::
  "PDFDocument \<Rightarrow> string list \<Rightarrow> PDFProcessingOptions \<Rightarrow> PDFSection list" where
  "detectChaptersInText pdf chs opts =
     (let maxScanPages = min 50 (numPages pdf)
      in concat (map (\<lambda>n. case extractPageWithStructure pdf n opts of
                            None \<Rightarrow> []
                          | Some p \<Rightarrow>
                              concat (map (\<lambda>header.
                                  map (\<lambda>chapter.
                                         \<lparr>title = section_content header, startPage = n,
                                          endPage = n + 10, sec_content = [],
                                          confidence = 7 / 10\<rparr>)
                                      (filter (\<lambda>chapter. fuzzyMatch (section_content header) chapter) chs))
                                (headersOf p)))
                     [1..maxScanPages]))"

definition sectionBlock :: "string \<Rightarrow> string \<Rightarrow> string" where
  "sectionBlock t formatted = ''\<newline>\<newline>=== '' @ t @ '' ===\<newline>'' @ formatted"

definition extractChapterContent ::
  "PDFDocument \<Rightarrow> PDFSection list \<Rightarrow> PDFProcessingOptions \<Rightarrow> string" where
  "extractChapterContent pdf chs opts =
     trim (fold (\<lambda>chapter fullText.
                   fullText @ sectionBlock (title chapter)
                     (formatExtractedContent
                        (extractPagesWithStructure pdf (startPage chapter) (endPage chapter) opts) opts))
             chs [])"

definition extractByChapters ::
  "regex_engine \<Rightarrow> PDFDocument \<Rightarrow> string list \<Rightarrow> PDFProcessingOptions \<Rightarrow> error + string" where
  "extractByChapters matchCount pdf chs opts =
     (let outline = extractEnhancedOutline pdf;
          matchingChapters =
            filter (\<lambda>sec. \<exists>chapter \<in> set chs.
                      fuzzyMatch (title sec) chapter \<or>
                      str_includes (toLowerCase (title sec)) (toLowerCase chapter))
              outline
      in if matchingChapters \<noteq> [] then Inr (extractChapterContent pdf matchingChapters opts)
         else (let detectedChapters = detectChaptersInText pdf chs opts
               in if detectedChapters \<noteq> [] then Inr (extractChapterContent pdf detectedChapters opts)
                  else extractByIntelligentSearch matchCount pdf chs
                         (opts\<lparr>maxPages := Some (Num 20)\<rparr>)))"

section \<open>Smart-auto strategy\<close>

record DocumentStructure =
  hasOutline :: bool
  avgPageLength :: real

definition analyzeDocumentStructure :: "PDFDocument \<Rightarrow> PDFProcessingOptions \<Rightarrow> DocumentStructure" where
  "analyzeDocumentStructure pdf opts =
     (let samplePages = min 5 (numPages pdf);
          totalLength = fold (\<lambda>n t. case extractPageWithStructure pdf n opts of
                                       None \<Rightarrow> t
                                     | Some p \<Rightarrow> t + length (content p))
                          [1..samplePages] 0
      in \<lparr>hasOutline = (extractEnhancedOutline pdf \<noteq> []),
          avgPageLength = real totalLength / real_of_int samplePages\<rparr>)"

definition identifyKeySections ::
  "PDFDocument \<Rightarrow> DocumentStructure \<Rightarrow> PDFProcessingOptions \<Rightarrow> PDFSection list" where
  "identifyKeySections pdf structure opts =
     (if hasOutline structure then extractEnhancedOutline pdf else detectSectionsFromText pdf opts)"

text \<open>
  The loop of \<open>extractByIntelligentSections\<close>: the sections still to visit, the pages
  processed so far and the text built so far.
\<close>

fun sectionsLoop ::
  "PDFDocument \<Rightarrow> PDFProcessingOptions \<Rightarrow> int \<Rightarrow> PDFSection list \<Rightarrow> int \<Rightarrow> string \<Rightarrow> string" where
  "sectionsLoop pdf opts maxP [] processedPages fullText = fullText"
| "sectionsLoop pdf opts maxP (sec # secs) processedPages fullText =
     (if processedPages \<ge> maxP then fullText
      else (let sectionPages = endPage sec - startPage sec + 1;
                pagesToProcess = min sectionPages (maxP - processedPages);
                sectionContent = extractPagesWithStructure pdf (startPage sec)
                                   (startPage sec + pagesToProcess - 1) opts
            in sectionsLoop pdf opts maxP secs (processedPages + pagesToProcess)
                 (fullText @ sectionBlock (title sec) (formatExtractedContent sectionContent opts))))"

definition extractByIntelligentSections ::
  "PDFDocument \<Rightarrow> PDFSection list \<Rightarrow> PDFProcessingOptions \<Rightarrow> string" where
  "extractByIntelligentSections pdf secs opts =
     trim (sectionsLoop pdf opts (orDefault (maxPages opts) DEFAULT_MAX_PAGES) secs 0 [])"

definition intelligentExtraction :: "PDFDocument \<Rightarrow> PDFProcessingOptions \<Rightarrow> string" where
  "intelligentExtraction pdf opts =
     (let maxP = orDefault (maxPages opts) DEFAULT_MAX_PAGES;
          maxChars = orDefault (maxCharacters opts) DEFAULT_MAX_CHARACTERS;
          documentStructure = analyzeDocumentStructure pdf opts;
          keySections = identifyKeySections pdf documentStructure opts
      in if keySections \<noteq> [] then extractByIntelligentSections pdf keySections opts
         else extractWithIntelligentLimits pdf maxP maxChars opts)"

section \<open>Entry points of the two parsers\<close>

type_synonym bytes = "nat list"

text \<open>Opening the raw bytes gives a loaded document or the error the library rejects with.\<close>

type_synonym document_loader = "bytes \<Rightarrow> error + PDFDocument"

definition selectStrategy ::
  "regex_engine \<Rightarrow> PDFDocument \<Rightarrow> PDFProcessingOptions \<Rightarrow> error + string" where
  "selectStrategy matchCount pdf opts =
     (case chapters opts of
        Some (c # cs) \<Rightarrow> extractByChapters matchCount pdf (c # cs) opts
      | _ \<Rightarrow>
          (case searchTerms opts of
             Some (t # ts) \<Rightarrow> extractByIntelligentSearch matchCount pdf (t # ts) opts
           | _ \<Rightarrow>
               (case pageRange opts of
                  Some pr \<Rightarrow> Inr (extractByPageRange pdf pr opts)
                | None \<Rightarrow> Inr (intelligentExtraction pdf opts))))"

definition extractTextFromPDF ::
  "regex_engine \<Rightarrow> document_loader \<Rightarrow> bytes \<Rightarrow> PDFProcessingOptions \<Rightarrow> error + string" where
  "extractTextFromPDF matchCount getDocument binaryContent opts =
     (case (case getDocument binaryContent of
              Inl e \<Rightarrow> Inl e
            | Inr pdf \<Rightarrow> selectStrategy matchCount pdf opts) of
        Inl e \<Rightarrow> Inl (Error (''Selective PDF parsing failed: '' @ message e))
      | Inr text \<Rightarrow> Inr text)"

text \<open>The loop of the plain parser over the page numbers still to visit.\<close>

fun localLoop :: "PDFDocument \<Rightarrow> int list \<Rightarrow> string \<Rightarrow> string" where
  "localLoop pdf [] fullText = fullText"
| "localLoop pdf (n # ns) fullText =
     (case getPage pdf n of
        None \<Rightarrow>
          localLoop pdf ns
            (fullText @ ''\<newline>\<newline>--- Page '' @ string_of_int n
               @ '' ---\<newline>[Error: Could not extract text from this page]'')
      | Some page \<Rightarrow>
          (let pageText = trim (collapseSpaces
                            (join '' '' (filter (\<lambda>t. trim t \<noteq> []) (page_items page))))
           in localLoop pdf ns
                (if pageText \<noteq> []
                 then fullText @ ''\<newline>\<newline>--- Page '' @ string_of_int n @ '' ---\<newline>'' @ pageText
                 else fullText)))"

definition localExtractTextFromPDF :: "document_loader \<Rightarrow> bytes \<Rightarrow> error + string" where
  "localExtractTextFromPDF getDocument binaryContent =
     (case getDocument binaryContent of
        Inl e \<Rightarrow> Inl (Error (''Local PDF parsing failed: '' @ message e))
      | Inr pdf \<Rightarrow>
          (let fullText = localLoop pdf [1..numPages pdf] []
           in if trim fullText \<noteq> [] then Inr (trim fullText)
              else Inr ''[No text content found in PDF - may be image-based or encrypted]''))"

section \<open>Extraction cache\<close>

record TFile =
  file_path :: string
  file_basename :: string
  stat_size :: int
  stat_mtime :: int

record CacheEntry =
  response :: string
  elapsed_time_ms :: int
  entry_options :: "PDFProcessingOptions option"

text \<open>
  The filesystem collaborator, as the cache sees it: the folders and the blobs of the vault,
  and the paths on which the adapter rejects every operation.
\<close>

record Adapter =
  folders :: "string set"
  blobs :: "string \<rightharpoonup> string"
  rejected :: "string set"

definition adapter_exists :: "Adapter \<Rightarrow> string \<Rightarrow> error + bool" where
  "adapter_exists a p =
     (if p \<in> rejected a then Inl (Error (''EACCES: '' @ p))
      else Inr (p \<in> folders a \<or> blobs a p \<noteq> None))"

definition adapter_mkdir :: "Adapter \<Rightarrow> string \<Rightarrow> error + Adapter" where
  "adapter_mkdir a p =
     (if p \<in> rejected a then Inl (Error (''EACCES: '' @ p))
      else Inr (a\<lparr>folders := insert p (folders a)\<rparr>))"

definition adapter_read :: "Adapter \<Rightarrow> string \<Rightarrow> error + string" where
  "adapter_read a p =
     (if p \<in> rejected a then Inl (Error (''EACCES: '' @ p))
      else case blobs a p of None \<Rightarrow> Inl (Error (''ENOENT: '' @ p)) | Some c \<Rightarrow> Inr c)"

definition adapter_write :: "Adapter \<Rightarrow> string \<Rightarrow> string \<Rightarrow> error + Adapter" where
  "adapter_write a p c =
     (if p \<in> rejected a then Inl (Error (''EACCES: '' @ p))
      else Inr (a\<lparr>blobs := (blobs a)(p \<mapsto> c)\<rparr>))"

text \<open>
  The serialisation of the host: \<open>stringify\<close> writes an entry as text and \<open>parse\<close> reads a
  text back as an entry, as the null value (\<open>None\<close>) or fails on malformed text.
\<close>

record Json =
  stringify :: "CacheEntry \<Rightarrow> string"
  parse :: "string \<Rightarrow> error + CacheEntry option"
  stringifyOptions :: "PDFProcessingOptions \<Rightarrow> string"

definition cacheDir :: string where
  "cacheDir = ''.copilot/pdf-cache''"

definition ensureCacheDir :: "Adapter \<Rightarrow> error + Adapter" where
  "ensureCacheDir a =
     (case adapter_exists a cacheDir of
        Inl e \<Rightarrow> Inl e
      | Inr True \<Rightarrow> Inr a
      | Inr False \<Rightarrow> adapter_mkdir a cacheDir)"

definition fileMetadata :: "TFile \<Rightarrow> string" where
  "fileMetadata file =
     file_path file @ '':'' @ string_of_int (stat_size file) @ '':'' @ string_of_int (stat_mtime file)"

text \<open>\<open>PDFCache.getCacheKey\<close>, over the digest function of the host's crypto library.\<close>

definition getCacheKey :: "(string \<Rightarrow> string) \<Rightarrow> TFile \<Rightarrow> string" where
  "getCacheKey md5 file = md5 (fileMetadata file)"

definition getCachePath :: "string \<Rightarrow> string" where
  "getCachePath cacheKey = cacheDir @ ''/'' @ cacheKey @ ''.json''"

definition getWithKey :: "Json \<Rightarrow> Adapter \<Rightarrow> string \<Rightarrow> CacheEntry option" where
  "getWithKey json a cacheKey =
     (let cachePath = getCachePath cacheKey
      in case adapter_exists a cachePath of
           Inl e \<Rightarrow> None
         | Inr False \<Rightarrow> None
         | Inr True \<Rightarrow>
             (case adapter_read a cachePath of
                Inl e \<Rightarrow> None
              | Inr cacheContent \<Rightarrow>
                  (case parse json cacheContent of Inl e \<Rightarrow> None | Inr r \<Rightarrow> r)))"

definition setWithKey :: "Json \<Rightarrow> Adapter \<Rightarrow> string \<Rightarrow> CacheEntry \<Rightarrow> Adapter" where
  "setWithKey json a cacheKey entry =
     (case ensureCacheDir a of
        Inl e \<Rightarrow> a
      | Inr a' \<Rightarrow>
          (case adapter_write a' (getCachePath cacheKey) (stringify json entry) of
             Inl e \<Rightarrow> a'
           | Inr a'' \<Rightarrow> a''))"

definition cache_get :: "(string \<Rightarrow> string) \<Rightarrow> Json \<Rightarrow> Adapter \<Rightarrow> TFile \<Rightarrow> CacheEntry option" where
  "cache_get md5 json a file = getWithKey json a (getCacheKey md5 file)"

definition cache_set :: "(string \<Rightarrow> string) \<Rightarrow> Json \<Rightarrow> Adapter \<Rightarrow> TFile \<Rightarrow> CacheEntry \<Rightarrow> Adapter" where
  "cache_set md5 json a file entry = setWithKey json a (getCacheKey md5 file) entry"

section \<open>The file-parsing facade for PDF files\<close>

text \<open>No options, or an options object without keys.\<close>

definition unoptioned :: "PDFProcessingOptions option \<Rightarrow> bool" where
  "unoptioned options = (case options of None \<Rightarrow> True | Some opts \<Rightarrow> opts = noOptions)"

definition getCacheKeyWithOptions :: "Json \<Rightarrow> TFile \<Rightarrow> PDFProcessingOptions option \<Rightarrow> string" where
  "getCacheKeyWithOptions json file options =
     (let baseKey = fileMetadata file
      in case options of
           None \<Rightarrow> baseKey
         | Some opts \<Rightarrow>
             if opts = noOptions then baseKey
             else baseKey @ '':'' @ stringifyOptions json opts)"

definition getProcessingOptions :: "int \<Rightarrow> PDFProcessingOptions option \<Rightarrow> PDFProcessingOptions" where
  "getProcessingOptions fileSize userOptions =
     (let sizeMB = real_of_int fileSize / (1024 * 1024)
      in if unoptioned userOptions
         then (if sizeMB > 50
               then noOptions\<lparr>maxPages := Some (Num 20), maxCharacters := Some (Num 50000)\<rparr>
               else if sizeMB > 10
               then noOptions\<lparr>maxPages := Some (Num 50), maxCharacters := Some (Num 100000)\<rparr>
               else noOptions)
         else (case userOptions of Some opts \<Rightarrow> opts | None \<Rightarrow> noOptions))"

text \<open>What the facade is given besides the file: the vault's reader and the host's libraries.\<close>

record Host =
  readBinary :: "TFile \<Rightarrow> error + bytes"
  getDocument :: document_loader
  matchCount :: regex_engine
  json :: Json

text \<open>
  The body of \<open>parseFile\<close> inside its \<open>try\<close>: the text it returns or the error it throws,
  with the adapter as the body leaves it.
\<close>

definition parseFileBody ::
  "Host \<Rightarrow> Adapter \<Rightarrow> TFile \<Rightarrow> PDFProcessingOptions option \<Rightarrow> (error + string) \<times> Adapter" where
  "parseFileBody host a file options =
     (let cacheKey = getCacheKeyWithOptions (json host) file options
      in case getWithKey (json host) a cacheKey of
           Some cachedResponse \<Rightarrow> (Inr (response cachedResponse), a)
         | None \<Rightarrow>
             (let finalOptions = getProcessingOptions (stat_size file) options
              in case readBinary host file of
                   Inl e \<Rightarrow> (Inl e, a)
                 | Inr binaryContent \<Rightarrow>
                     (case (if finalOptions \<noteq> noOptions
                            then extractTextFromPDF (matchCount host) (getDocument host)
                                   binaryContent finalOptions
                            else localExtractTextFromPDF (getDocument host) binaryContent) of
                        Inl e \<Rightarrow> (Inl e, a)
                      | Inr extractedText \<Rightarrow>
                          (Inr extractedText,
                           setWithKey (json host) a cacheKey
                             \<lparr>response = extractedText, elapsed_time_ms = 0,
                              entry_options = Some finalOptions\<rparr>))))"

definition parseFile ::
  "Host \<Rightarrow> Adapter \<Rightarrow> TFile \<Rightarrow> PDFProcessingOptions option \<Rightarrow> string \<times> Adapter" where
  "parseFile host a file options =
     (case parseFileBody host a file options of
        (Inr text, a') \<Rightarrow> (text, a')
      | (Inl e, a') \<Rightarrow>
          (''[Error: Could not extract content from PDF '' @ file_basename file @ ''. ''
             @ message e @ '']'', a'))"

section \<open>Inline options of an embedded PDF\<close>

text \<open>
  What \<open>parseInt\<close> returns is a double: not-a-number, an integer that a double holds, or
  an infinity (with the flag set for the negative one) when the digits exceed the range of
  doubles.
\<close>

datatype parsed_number = NotANumber | Finite int | Infinite bool

text \<open>
  The options object that \<open>parseEmbedOptions\<close> builds is untyped in the source: a value
  may be the undefined value (\<open>None\<close> in a list of terms) and a number is whatever
  \<open>parseInt\<close> returns.
\<close>

record EmbedOptions =
  opt_pageRange :: "(parsed_number \<times> parsed_number) option"
  opt_searchTerms :: "string option list option"
  opt_chapters :: "string option list option"
  opt_maxPages :: "parsed_number option"
  opt_maxCharacters :: "parsed_number option"

definition emptyEmbedOptions :: EmbedOptions where
  "emptyEmbedOptions =
     \<lparr>opt_pageRange = None, opt_searchTerms = None, opt_chapters = None,
      opt_maxPages = None, opt_maxCharacters = None\<rparr>"

fun splitOn :: "char \<Rightarrow> string \<Rightarrow> string list" where
  "splitOn d [] = [[]]"
| "splitOn d (c # cs) =
     (if c = d then [] # splitOn d cs
      else (case splitOn d cs of w # ws \<Rightarrow> (c # w) # ws | [] \<Rightarrow> [[c]]))"

definition digitValue :: "char \<Rightarrow> nat" where
  "digitValue c =
     (case map_of (zip ''0123456789abcdefABCDEF''
                     [0, 1, 2, 3, 4, 5, 6, 7, 8, 9, 10, 11, 12, 13, 14, 15, 10, 11, 12, 13, 14, 15]) c of
        Some v \<Rightarrow> v
      | None \<Rightarrow> 0)"

definition isHexDigit :: "char \<Rightarrow> bool" where
  "isHexDigit c = (c \<in> set ''0123456789abcdefABCDEF'')"

definition digitsValue :: "nat \<Rightarrow> string \<Rightarrow> nat" where
  "digitsValue radix ds = fold (\<lambda>c acc. acc * radix + digitValue c) ds 0"

text \<open>
  The nearest double of a natural number: below \<open>2^53\<close> the number itself; above, the
  53 leading bits are kept and the rest is rounded to nearest, a tie to the even neighbour.
  The exact value of the digits is rounded, also where the language lets a host drop the
  decimal digits after the twentieth first.
\<close>

fun bitLength :: "nat \<Rightarrow> nat" where
  "bitLength n = (if n = 0 then 0 else Suc (bitLength (n div 2)))"

definition roundToDouble :: "nat \<Rightarrow> nat" where
  "roundToDouble n =
     (if n < 2 ^ 53 then n
      else (let e = bitLength n - 53;
                q = n div 2 ^ e;
                r = n mod 2 ^ e;
                half = 2 ^ (e - 1);
                q' = (if r > half \<or> (r = half \<and> odd q) then q + 1 else q)
            in q' * 2 ^ e))"

text \<open>
  \<open>parseInt\<close> without a radix: leading blanks, a sign, a \<open>0x\<close> prefix for base 16, then
  the longest run of digits; no digit gives not-a-number. The value of the digits is
  rounded to a double, and a value that rounds to \<open>2^1024\<close> or more is an infinity. The
  undefined value gives not-a-number too.
\<close>

definition parseDigits :: "bool \<Rightarrow> nat \<Rightarrow> string \<Rightarrow> parsed_number" where
  "parseDigits negative radix u =
     (let ds = takeWhile (if radix = 16 then isHexDigit else isDigit) u
      in if ds = [] then NotANumber
         else (let v = roundToDouble (digitsValue radix ds)
               in if v \<ge> 2 ^ 1024 then Infinite negative
                  else Finite (if negative then - int v else int v)))"

definition parseInt :: "string option \<Rightarrow> parsed_number" where
  "parseInt v =
     (case v of
        None \<Rightarrow> NotANumber
      | Some s \<Rightarrow>
          (let t = dropWhile isSpace s;
               negative = (case t of c # _ \<Rightarrow> c = CHR ''-'' | [] \<Rightarrow> False);
               u = (case t of c # r \<Rightarrow> if c = CHR ''-'' \<or> c = CHR ''+'' then r else t | [] \<Rightarrow> t)
           in case u of
                z # xch # r \<Rightarrow>
                  if z = CHR ''0'' \<and> (xch = CHR ''x'' \<or> xch = CHR ''X'')
                  then parseDigits negative 16 r
                  else parseDigits negative 10 u
              | _ \<Rightarrow> parseDigits negative 10 u))"

text \<open>A match of \<^verbatim>\<open>/(\d+)-(\d+)/\<close> that starts at the head of the text, and the leftmost match.\<close>

definition rangeAt :: "string \<Rightarrow> (string \<times> string) option" where
  "rangeAt t =
     (let a = takeWhile isDigit t
      in if a = [] then None
         else (case dropWhile isDigit t of
                 [] \<Rightarrow> None
               | d # r \<Rightarrow>
                   if d = CHR ''-'' \<and> takeWhile isDigit r \<noteq> []
                   then Some (a, takeWhile isDigit r)
                   else None))"

fun matchRange :: "string \<Rightarrow> (string \<times> string) option" where
  "matchRange [] = None"
| "matchRange (c # cs) =
     (case rangeAt (c # cs) of Some m \<Rightarrow> Some m | None \<Rightarrow> matchRange cs)"

text \<open>The key and the value of one part: the first two pieces around the colons, trimmed.\<close>

definition partKey :: "string \<Rightarrow> string" where
  "partKey part = (case map trim (splitOn (CHR '':'') part) of k # _ \<Rightarrow> k | [] \<Rightarrow> [])"

definition partValue :: "string \<Rightarrow> string option" where
  "partValue part = (case map trim (splitOn (CHR '':'') part) of _ # v # _ \<Rightarrow> Some v | _ \<Rightarrow> None)"

definition applyPart :: "EmbedOptions \<Rightarrow> string \<Rightarrow> error + EmbedOptions" where
  "applyPart options part =
     (let key = toLowerCase (partKey part);
          v = partValue part
      in if key = ''pages''
         then (case v of
                 None \<Rightarrow> Inl (Error ''Cannot read properties of undefined (reading 'match')'')
               | Some s \<Rightarrow>
                   (case matchRange s of
                      Some (a, b) \<Rightarrow>
                        Inr (options\<lparr>opt_pageRange := Some (parseInt (Some a), parseInt (Some b))\<rparr>)
                    | None \<Rightarrow> Inr options))
         else if key = ''search'' then Inr (options\<lparr>opt_searchTerms := Some [v]\<rparr>)
         else if key = ''chapter'' \<or> key = ''chapters'' then Inr (options\<lparr>opt_chapters := Some [v]\<rparr>)
         else if key = ''max'' then Inr (options\<lparr>opt_maxPages := Some (parseInt v)\<rparr>)
         else if key = ''chars'' \<or> key = ''characters''
         then Inr (options\<lparr>opt_maxCharacters := Some (parseInt v)\<rparr>)
         else Inr options)"

fun partsLoop :: "EmbedOptions \<Rightarrow> string list \<Rightarrow> error + EmbedOptions" where
  "partsLoop options [] = Inr options"
| "partsLoop options (part # parts) =
     (case applyPart options part of
        Inl e \<Rightarrow> Inl e
      | Inr options' \<Rightarrow> partsLoop options' parts)"

definition parseEmbedOptions :: "string option \<Rightarrow> error + EmbedOptions" where
  "parseEmbedOptions optionsString =
     (case optionsString of
        None \<Rightarrow> Inr emptyEmbedOptions
      | Some s \<Rightarrow>
          if s = [] then Inr emptyEmbedOptions
          else partsLoop emptyEmbedOptions (splitOn (CHR '','') s))"


section \<open>Example documents and collaborators\<close>

definition paragraphOf :: "string \<Rightarrow> TextSection" where
  "paragraphOf t =
     \<lparr>section_type = Paragraph, section_content = t, level = None,
      position = \<lparr>pos_x = 0, pos_y = 0, pos_width = 0, pos_height = 0\<rparr>\<rparr>"

definition textPage :: "string \<Rightarrow> PDFPage" where
  "textPage t = \<lparr>page_items = [t], page_sections = [paragraphOf t], page_paints_image = False\<rparr>"

text \<open>A document without outline whose pages each hold one paragraph of the given text.\<close>

definition documentOf :: "string list \<Rightarrow> PDFDocument" where
  "documentOf texts =
     \<lparr>numPages = int (length texts),
      getPage = (\<lambda>n. if 1 \<le> n \<and> n \<le> int (length texts)
                     then Some (textPage (texts ! nat (n - 1))) else None),
      getOutline = Inr None,
      getPageIndex = (\<lambda>r. Inl (Error ''no such reference''))\<rparr>"

text \<open>The regular-expression engine on a pattern without metacharacters.\<close>

function literalMatches :: "string \<Rightarrow> string \<Rightarrow> nat" where
  "literalMatches pat [] = (if pat = [] then 1 else 0)"
| "literalMatches pat (c # cs) =
     (if pat = [] then 1 + literalMatches pat cs
      else if prefix pat (c # cs) then 1 + literalMatches pat (drop (length pat) (c # cs))
      else literalMatches pat cs)"
  by pat_completeness auto
termination
  by (relation "measure (\<lambda>(pat, text). length text)") auto

definition literalEngine :: regex_engine where
  "literalEngine pat text = Inr (literalMatches pat text)"

text \<open>A serialisation that writes the response text of an entry and nothing else.\<close>

definition plainJson :: Json where
  "plainJson =
     \<lparr>stringify = response,
      parse = (\<lambda>s. Inr (Some \<lparr>response = s, elapsed_time_ms = 0, entry_options = None\<rparr>)),
      stringifyOptions = (\<lambda>opts. ''{}'')\<rparr>"

definition emptyAdapter :: Adapter where
  "emptyAdapter = \<lparr>folders = {}, blobs = Map.empty, rejected = {}\<rparr>"

definition exampleFile :: TFile where
  "exampleFile =
     \<lparr>file_path = ''notes/a.pdf'', file_basename = ''a'', stat_size = 10, stat_mtime = 20\<rparr>"

text \<open>A host whose vault reads the file and whose library opens it as a two-page document.\<close>

definition exampleHost :: Host where
  "exampleHost =
     \<lparr>readBinary = (\<lambda>f. Inr [37, 80, 68, 70]),
      getDocument = (\<lambda>b. Inr (documentOf [''alpha'', ''beta''])),
      matchCount = literalEngine,
      json = plainJson\<rparr>"

text \<open>A host whose library rejects the bytes of every file.\<close>

definition brokenHost :: Host where
  "brokenHost = exampleHost\<lparr>getDocument := (\<lambda>b. Inl (Error ''Invalid PDF structure''))\<rparr>"

definition tenPages :: PDFDocument where
  "tenPages =
     documentOf [''p1'', ''p2'', ''p3'', ''p4'', ''p5'', ''p6'', ''p7'', ''p8'', ''p9'', ''p10'']"

text \<open>Ten pages of which only the fifth holds the letter that is searched for.\<close>

definition fivePageHit :: PDFDocument where
  "fivePageHit = documentOf [''y'', ''y'', ''y'', ''y'', ''x'', ''y'', ''y'', ''y'', ''y'', ''y'']"

text \<open>Two pages of six characters each.\<close>

definition twoSixes :: PDFDocument where
  "twoSixes = documentOf [''aaaaaa'', ''bbbbbb'']"

section \<open>Explicit page ranges\<close>

lemma pagesLoop_all:
  "\<forall>n \<in> set ns. extractPageWithStructure pdf n opts = Some (pg n) \<Longrightarrow>
   pagesLoop pdf opts ns = map (\<lambda>n. pageEntry n (pg n) 1) ns"
  by (induction ns) auto

lemma pageHeader_plain:
  "\<not> hasImages p \<Longrightarrow>
   pageHeader (pageEntry n p 1) = ''\<newline>\<newline>--- Page '' @ string_of_int n @ '' ---\<newline>''"
  by (simp add: pageHeader_def pageEntry_def)

lemma extract_no_images:
  "extractImages opts \<noteq> Some True \<Longrightarrow> extractPageWithStructure pdf n opts = Some p \<Longrightarrow>
   \<not> hasImages p"
  by (auto simp: extractPageWithStructure_def Let_def split: option.splits)

lemma upto_3_7: "[3..7] = [3, 4, 5, 6, 7 :: int]"
  by (simp add: upto.simps)

text \<open>
  Claim C3. On a document of ten pages whose pages 3 to 7 parse, and without image
  detection, the range \<open>{start: 3, end: 7}\<close> returns the pages 3, 4, 5, 6, 7 and no other,
  each at relevance 1 under the header \<open>--- Page N ---\<close> with no relevance annotation;
  the range \<open>{start: 0, end: 999}\<close> is processed as \<open>{1, 10}\<close>.
\<close>

theorem page_range_3_to_7:
  assumes "numPages pdf = 10"
    and "\<forall>n \<in> {3..7}. extractPageWithStructure pdf n opts = Some (pg n)"
    and "extractImages opts \<noteq> Some True"
  shows "extractByPageRange pdf (3, 7) opts =
           trim (concat (map (\<lambda>n. ''\<newline>\<newline>--- Page '' @ string_of_int n @ '' ---\<newline>''
                                  @ content (pg n))
                   [3, 4, 5, 6, 7]))
         \<and> map pageNum (extractPagesWithStructure pdf 3 7 opts) = [3, 4, 5, 6, 7]
         \<and> (\<forall>p \<in> set (extractPagesWithStructure pdf 3 7 opts). relevance p = 1)
         \<and> actualRange pdf (0, 999) = (1, 10)
         \<and> extractByPageRange pdf (0, 999) opts = extractByPageRange pdf (1, 10) opts"
proof -
  have all: "\<forall>n \<in> set [3..7]. extractPageWithStructure pdf n opts = Some (pg n)"
    using assms(2) by simp
  have pages:
    "extractPagesWithStructure pdf 3 7 opts = map (\<lambda>n. pageEntry n (pg n) 1) [3, 4, 5, 6, 7]"
    unfolding extractPagesWithStructure_def using pagesLoop_all [OF all] by (simp add: upto_3_7)
  have noimg: "\<not> hasImages (pg n)" if "n \<in> {3..7}" for n
    using extract_no_images [OF assms(3)] assms(2) that by blast
  have block: "pageHeader (pageEntry n (pg n) 1) @ content (pageEntry n (pg n) 1)
                 = ''\<newline>\<newline>--- Page '' @ string_of_int n @ '' ---\<newline>'' @ content (pg n)"
    if "n \<in> {3..7}" for n
    using pageHeader_plain [OF noimg [OF that]] by (simp add: pageEntry_def)
  have inner: "actualRange pdf (3, 7) = (3, 7)"
    using assms(1) by (simp add: actualRange_def)
  have "extractByPageRange pdf (3, 7) opts
          = formatExtractedContent (map (\<lambda>n. pageEntry n (pg n) 1) [3, 4, 5, 6, 7]) opts"
    by (simp add: extractByPageRange_def inner pages)
  also have "\<dots> = trim (concat (map (\<lambda>n. ''\<newline>\<newline>--- Page '' @ string_of_int n @ '' ---\<newline>''
                                          @ content (pg n))
                           [3, 4, 5, 6, 7]))"
    using block by (simp add: formatExtractedContent_def)
  finally have a: "extractByPageRange pdf (3, 7) opts =
           trim (concat (map (\<lambda>n. ''\<newline>\<newline>--- Page '' @ string_of_int n @ '' ---\<newline>''
                                  @ content (pg n))
                   [3, 4, 5, 6, 7]))" .
  have b: "map pageNum (extractPagesWithStructure pdf 3 7 opts) = [3, 4, 5, 6, 7]"
    by (simp add: pages pageEntry_def)
  have c: "\<forall>p \<in> set (extractPagesWithStructure pdf 3 7 opts). relevance p = 1"
    by (simp add: pages pageEntry_def)
  have d: "actualRange pdf (0, 999) = (1, 10)"
    using assms(1) by (simp add: actualRange_def)
  have e: "extractByPageRange pdf (0, 999) opts = extractByPageRange pdf (1, 10) opts"
    using assms(1) by (simp add: extractByPageRange_def actualRange_def)
  from a b c d e show ?thesis by blast
qed

theorem page_range_3_to_7_witness:
  "numPages tenPages = 10 \<and> extractImages noOptions \<noteq> Some True
   \<and> extractByPageRange tenPages (3, 7) noOptions =
       ''--- Page 3 ---\<newline>p3\<newline>\<newline>--- Page 4 ---\<newline>p4\<newline>\<newline>--- Page 5 ---\<newline>p5\<newline>\<newline>--- Page 6 ---\<newline>p6\<newline>\<newline>--- Page 7 ---\<newline>p7''
   \<and> map pageNum (extractPagesWithStructure tenPages 3 7 noOptions) = [3, 4, 5, 6, 7]
   \<and> actualRange tenPages (0, 999) = (1, 10)"
proof -
  let ?pg = "\<lambda>n. the (extractPageWithStructure tenPages n noOptions)"
  have h1: "numPages tenPages = 10"
    by (simp add: tenPages_def documentOf_def)
  have h2: "\<forall>n \<in> {3..7}. extractPageWithStructure tenPages n noOptions = Some (?pg n)"
    by (auto simp: extractPageWithStructure_def tenPages_def documentOf_def Let_def)
  have h3: "extractImages noOptions \<noteq> Some True"
    by (simp add: noOptions_def)
  have rendered: "trim (concat (map (\<lambda>n. ''\<newline>\<newline>--- Page '' @ string_of_int n @ '' ---\<newline>''
                                     @ content (?pg n))
                      [3, 4, 5, 6, 7]))
                = ''--- Page 3 ---\<newline>p3\<newline>\<newline>--- Page 4 ---\<newline>p4\<newline>\<newline>--- Page 5 ---\<newline>p5\<newline>\<newline>--- Page 6 ---\<newline>p6\<newline>\<newline>--- Page 7 ---\<newline>p7''"
    by code_simp
  show ?thesis
    using page_range_3_to_7 [OF h1 h2 h3] h1 h3 rendered by simp
qed

text \<open>
  Claim C10. When the clamped start \<open>max(1, start)\<close> exceeds the clamped end
  \<open>min(end, numPages)\<close>, no page is extracted and the page-range strategy returns the
  empty string.
\<close>

theorem empty_page_range:
  "max 1 (fst pr) > min (snd pr) (numPages pdf) \<Longrightarrow>
     extractPagesWithStructure pdf (max 1 (fst pr)) (min (snd pr) (numPages pdf)) opts = []
     \<and> extractByPageRange pdf pr opts = []"
  by (simp add: extractByPageRange_def actualRange_def extractPagesWithStructure_def
        formatExtractedContent_def)

theorem empty_page_range_witness:
  "max 1 (fst (11, 20)) > min (snd (11, 20)) (numPages tenPages)
   \<and> extractByPageRange tenPages (11, 20) noOptions = []"
proof -
  have h: "max 1 (fst (11 :: int, 20 :: int)) > min (snd (11 :: int, 20 :: int)) (numPages tenPages)"
    by (simp add: tenPages_def documentOf_def)
  show ?thesis
    using empty_page_range [OF h, of noOptions] h by simp
qed

section \<open>Search strategy: the context window\<close>

lemma ln_2_ge_half: "ln (2::real) \<ge> 1 / 2"
proof -
  have "exp (1 / 2) \<le> (2::real)" by (rule exp_half_le2)
  then have "ln (exp (1 / 2 :: real)) \<le> ln 2" by (subst ln_le_cancel_iff) simp_all
  then show ?thesis by simp
qed

lemma hit_page_x:
  "extractPageWithStructure fivePageHit 5 noOptions =
     Some \<lparr>content = ''x'', sections = [paragraphOf ''x''], hasImages = False,
           metadata = analyzePageMetadata ''x'' [paragraphOf ''x'']\<rparr>"
  by (simp add: extractPageWithStructure_def fivePageHit_def documentOf_def textPage_def Let_def
        noOptions_def combineTextSections_def trim_def isSpace_def paragraphOf_def)

lemma hit_page_y:
  "n \<in> {1, 2, 3, 4, 6, 7, 8, 9, 10} \<Longrightarrow>
   extractPageWithStructure fivePageHit n noOptions =
     Some \<lparr>content = ''y'', sections = [paragraphOf ''y''], hasImages = False,
           metadata = analyzePageMetadata ''y'' [paragraphOf ''y'']\<rparr>"
  by (auto simp add: extractPageWithStructure_def fivePageHit_def documentOf_def textPage_def
        Let_def noOptions_def combineTextSections_def trim_def isSpace_def paragraphOf_def)

lemma one_letter_metadata:
  "analyzePageMetadata ''x'' secs =
     \<lparr>wordCount = 1, avgWordLength = 1, hasNumbers = False, hasReferences = False, textDensity = 1\<rparr>"
  "analyzePageMetadata ''y'' secs =
     \<lparr>wordCount = 1, avgWordLength = 1, hasNumbers = False, hasReferences = False, textDensity = 1\<rparr>"
  by (simp_all add: analyzePageMetadata_def Let_def isSpace_def isDigit_def bracketRef_def
        yearRef_def str_includes_def)

lemma score_y:
  "calculateEnhancedRelevance literalEngine
     \<lparr>content = ''y'', sections = [paragraphOf ''y''], hasImages = False,
      metadata = analyzePageMetadata ''y'' [paragraphOf ''y'']\<rparr> [''x''] = Inr (Some 0)"
  by (simp add: calculateEnhancedRelevance_def termScore_def literalEngine_def toLowerCase_def
        toLowerChar_def upperLetters_def lowerLetters_def paragraphOf_def Let_def one_letter_metadata)

lemma score_x:
  "calculateEnhancedRelevance literalEngine
     \<lparr>content = ''x'', sections = [paragraphOf ''x''], hasImages = False,
      metadata = analyzePageMetadata ''x'' [paragraphOf ''x'']\<rparr> [''x'']
     = Inr (Some (ln 2 * (11 / 10)))"
  by (simp add: calculateEnhancedRelevance_def termScore_def literalEngine_def toLowerCase_def
        toLowerChar_def upperLetters_def lowerLetters_def paragraphOf_def Let_def one_letter_metadata)

lemma upto_1_10: "[1..10] = [1, 2, 3, 4, 5, 6, 7, 8, 9, 10 :: int]"
  by (simp add: upto.simps)

lemma hit_analysis:
  "analysisLoop literalEngine fivePageHit [''x''] noOptions (1 / 100) [1..10]
     = Inr [pageEntry 5 \<lparr>content = ''x'', sections = [paragraphOf ''x''], hasImages = False,
                         metadata = analyzePageMetadata ''x'' [paragraphOf ''x'']\<rparr>
              (ln 2 * (11 / 10))]"
  using ln_2_ge_half by (simp add: upto_1_10 hit_page_x hit_page_y score_x score_y)

lemma select_single:
  "map pageNum (selectPagesWithContext (sort_key (\<lambda>p. - relevance p) [pageEntry 5 p r]) 50 2) = [5]"
  by (simp add: selectPagesWithContext_def slice0_def selectNumbers_def addContext_def set_add_def
        pageEntry_def upto.simps List.map_filter_def Let_def)

text \<open>Whatever the window, the selection returns relevant pages only.\<close>

lemma find_in_set: "find P xs = Some x \<Longrightarrow> x \<in> set xs"
  by (induction xs) (auto split: if_splits)

lemma map_filter_find_subset: "set (List.map_filter (\<lambda>n. find (P n) xs) ns) \<subseteq> set xs"
  by (auto simp: List.map_filter_def dest: find_in_set)

lemma selectPagesWithContext_subset:
  "set (selectPagesWithContext pageAnalysis maxP window) \<subseteq> set pageAnalysis"
  using map_filter_find_subset [of "\<lambda>n p. pageNum p = n" pageAnalysis]
  by (simp add: selectPagesWithContext_def Let_def)

text \<open>
  Claim C1 (the code diverges). On a document of ten pages of which only page 5 matches the
  search term, with the default context window of 2 and the default page limit, the search
  strategy selects page 5 alone: the neighbours 3, 4, 6 and 7 are put into the set of
  selected numbers and then dropped, because each number is looked up among the relevant
  pages only.
\<close>

theorem search_single_hit_drops_context:
  "numPages fivePageHit = 10
   \<and> map_sum id (map pageNum) (intelligentSearchPages literalEngine fivePageHit [''x''] noOptions)
       = Inr [5]"
proof -
  have n: "numPages fivePageHit = 10"
    by (simp add: fivePageHit_def documentOf_def)
  have d: "minRelevanceOf noOptions = 1 / 100"
    "orDefault (maxPages noOptions) DEFAULT_MAX_PAGES = 50"
    "orDefault (contextWindow noOptions) DEFAULT_CONTEXT_WINDOW = 2"
    by (simp_all add: minRelevanceOf_def noOptions_def DEFAULT_MIN_RELEVANCE_def orDefault_def
          DEFAULT_MAX_PAGES_def DEFAULT_CONTEXT_WINDOW_def)
  have "intelligentSearchPages literalEngine fivePageHit [''x''] noOptions
          = Inr (selectPagesWithContext (sort_key (\<lambda>p. - relevance p)
               [pageEntry 5 \<lparr>content = ''x'', sections = [paragraphOf ''x''], hasImages = False,
                              metadata = analyzePageMetadata ''x'' [paragraphOf ''x'']\<rparr>
                  (ln 2 * (11 / 10))]) 50 2)"
    unfolding intelligentSearchPages_def Let_def d n hit_analysis by simp
  then show ?thesis
    using n select_single by simp
qed

section \<open>Sequential bounded extraction: budget and notice\<close>

text \<open>The running count is the total length of the pages pushed, and it stays in budget.\<close>

lemma limitsLoop_count:
  "limitsLoop pdf opts maxChars ns pages charCount = (pages', charCount') \<Longrightarrow>
   charCount = (\<Sum>p\<leftarrow>pages. int (length (content p))) \<Longrightarrow>
   charCount' = (\<Sum>p\<leftarrow>pages'. int (length (content p))) \<and> charCount' \<le> max charCount maxChars"
proof (induction ns arbitrary: pages charCount)
  case Nil
  then show ?case by auto
next
  case (Cons n ns)
  show ?case
  proof (cases "extractPageWithStructure pdf n opts")
    case None
    with Cons show ?thesis by simp
  next
    case (Some p)
    show ?thesis
    proof (cases "charCount + int (length (content p)) > maxChars")
      case True
      with Cons.prems Some show ?thesis by (auto simp: Let_def)
    next
      case False
      with Cons.prems Some
      have run: "limitsLoop pdf opts maxChars ns (pages @ [pageEntry n p 1])
                   (charCount + int (length (content p))) = (pages', charCount')"
        by (simp add: Let_def)
      have total: "charCount + int (length (content p))
                   = (\<Sum>q\<leftarrow>pages @ [pageEntry n p 1]. int (length (content q)))"
        using Cons.prems(2) by (simp add: pageEntry_def)
      from Cons.IH [OF run total] False show ?thesis by auto
    qed
  qed
qed

lemma limits_budget:
  assumes "0 \<le> maxChars"
    and "limitsLoop pdf opts maxChars ns [] 0 = (pages, charCount)"
  shows "(\<Sum>p\<leftarrow>pages. int (length (content p))) \<le> maxChars"
  using limitsLoop_count [OF assms(2)] assms(1) by simp

text \<open>
  Claim C2 (the code diverges). With a budget of 10 characters and two pages of six
  characters each, the second page would overflow the budget and is left out, so the
  extraction is cut on the character boundary; the result is the first page alone and
  carries no truncation notice, because the notice is appended only when the count of the
  included pages has reached the budget itself.
\<close>

theorem truncation_without_notice:
  "numPages twoSixes = 2
   \<and> map pageNum (fst (limitsLoop twoSixes noOptions 10 [1..2] [] 0)) = [1]
   \<and> extractWithIntelligentLimits twoSixes 50 10 noOptions = ''--- Page 1 ---\<newline>aaaaaa''
   \<and> intelligentExtraction twoSixes (noOptions\<lparr>maxCharacters := Some (Num 10)\<rparr>)
       = ''--- Page 1 ---\<newline>aaaaaa''"
  by code_simp

section \<open>Fuzzy matching and edit distance\<close>

text \<open>The two nested loops over the matrix compute the recurrence of the distance.\<close>

lemma fold_upt_invariant:
  assumes "P a x" and "a \<le> b"
    and "\<And>i y. a \<le> i \<Longrightarrow> i < b \<Longrightarrow> P i y \<Longrightarrow> P (Suc i) (f i y)"
  shows "P b (fold f [a..<b] x)"
  using assms(2,3)
proof (induction b)
  case 0
  with assms(1) show ?case by simp
next
  case (Suc b)
  show ?case
  proof (cases "a = Suc b")
    case True
    with assms(1) show ?thesis by simp
  next
    case False
    with Suc.prems have le: "a \<le> b" by simp
    have "P b (fold f [a..<b] x)"
      using Suc.IH [OF le] Suc.prems(2) by simp
    then have "P (Suc b) (f b (fold f [a..<b] x))"
      using Suc.prems(2) [of b] le by simp
    then show ?thesis using le by simp
  qed
qed

lemma shape_replicate: "shape n1 n2 (replicate (n2 + 1) (replicate (n1 + 1) 0))"
  by (simp add: shape_def)

lemma shape_row: "shape n1 n2 m \<Longrightarrow> j \<le> n2 \<Longrightarrow> length (m ! j) = Suc n1"
  by (simp add: shape_def)

lemma shape_update:
  assumes "shape n1 n2 m" and "j \<le> n2"
  shows "shape n1 n2 (m[j := (m ! j)[i := v]])"
proof -
  have "length ((m ! j)[i := v]) = Suc n1"
    using shape_row [OF assms] by simp
  moreover have "set (m[j := (m ! j)[i := v]]) \<subseteq> insert ((m ! j)[i := v]) (set m)"
    by (rule set_update_subset_insert)
  ultimately show ?thesis
    using assms(1) by (auto simp: shape_def)
qed

lemma cell_update:
  assumes "shape n1 n2 m" and "j \<le> n2" and "i \<le> n1" and "j' \<le> n2" and "i' \<le> n1"
  shows "m[j := (m ! j)[i := v]] ! j' ! i' = (if j' = j \<and> i' = i then v else m ! j' ! i')"
proof -
  have len: "length m = Suc n2" using assms(1) by (simp add: shape_def)
  have row: "length (m ! j) = Suc n1" using shape_row [OF assms(1,2)] .
  show ?thesis
    using len row assms(2-5) by (auto simp: nth_list_update)
qed

lemma prefixDistance_zero [simp]: "prefixDistance s t i 0 = i"
  by (cases i) simp_all

lemma init_row:
  "shape n1 n2 (fold (\<lambda>i m. m[0 := (m ! 0)[i := i]]) [0..<n1 + 1] (replicate (n2 + 1) (replicate (n1 + 1) 0)))
   \<and> (\<forall>i < n1 + 1. fold (\<lambda>i m. m[0 := (m ! 0)[i := i]]) [0..<n1 + 1]
                      (replicate (n2 + 1) (replicate (n1 + 1) 0)) ! 0 ! i = i)"
proof (rule fold_upt_invariant [where P = "\<lambda>k m. shape n1 n2 m \<and> (\<forall>i < k. m ! 0 ! i = i)"])
  show "shape n1 n2 (replicate (n2 + 1) (replicate (n1 + 1) 0)) \<and>
    (\<forall>i<0. replicate (n2 + 1) (replicate (n1 + 1) (0::nat)) ! 0 ! i = i)"
    using shape_replicate by simp
next
  show "0 \<le> n1 + 1" by simp
next
  fix k and y :: "nat list list"
  assume k: "k < n1 + 1" and inv: "shape n1 n2 y \<and> (\<forall>i<k. y ! 0 ! i = i)"
  then have "y[0 := (y ! 0)[k := k]] ! 0 ! i = i" if "i < Suc k" for i
    using cell_update [of n1 n2 y 0 k 0 i k] that by (auto simp: less_Suc_eq)
  then show "shape n1 n2 (y[0 := (y ! 0)[k := k]]) \<and> (\<forall>i<Suc k. y[0 := (y ! 0)[k := k]] ! 0 ! i = i)"
    using inv shape_update [of n1 n2 y 0 k k] by simp
qed

lemma init_filled: "filled s t (initMatrix (length s) (length t)) 1 0"
proof -
  let ?n1 = "length s" and ?n2 = "length t"
  let ?m1 = "fold (\<lambda>i m. m[0 := (m ! 0)[i := i]]) [0..<?n1 + 1]
               (replicate (?n2 + 1) (replicate (?n1 + 1) 0))"
  let ?m2 = "fold (\<lambda>j m. m[j := (m ! j)[0 := j]]) [0..<?n2 + 1] ?m1"
  have "shape ?n1 ?n2 ?m2 \<and> (\<forall>i \<le> ?n1. ?m2 ! 0 ! i = i) \<and> (\<forall>j < ?n2 + 1. ?m2 ! j ! 0 = j)"
  proof (rule fold_upt_invariant
      [where P = "\<lambda>k m. shape ?n1 ?n2 m \<and> (\<forall>i \<le> ?n1. m ! 0 ! i = i) \<and> (\<forall>j < k. m ! j ! 0 = j)"])
    show "shape ?n1 ?n2 ?m1 \<and> (\<forall>i \<le> ?n1. ?m1 ! 0 ! i = i) \<and> (\<forall>j<0. ?m1 ! j ! 0 = j)"
      using init_row [of ?n1 ?n2] by (simp add: less_Suc_eq_le)
  next
    show "0 \<le> ?n2 + 1" by simp
  next
    fix k and y :: "nat list list"
    assume k: "k < ?n2 + 1"
      and inv: "shape ?n1 ?n2 y \<and> (\<forall>i \<le> ?n1. y ! 0 ! i = i) \<and> (\<forall>j<k. y ! j ! 0 = j)"
    have upd: "y[k := (y ! k)[0 := k]] ! j ! i = (if j = k \<and> i = 0 then k else y ! j ! i)"
      if "j \<le> ?n2" "i \<le> ?n1" for j i
      using cell_update [of ?n1 ?n2 y k 0 j i k] inv k that by simp
    have a: "\<forall>i \<le> ?n1. y[k := (y ! k)[0 := k]] ! 0 ! i = i"
      using upd inv by auto
    have b: "\<forall>j < Suc k. y[k := (y ! k)[0 := k]] ! j ! 0 = j"
      using upd inv k by (auto simp: less_Suc_eq)
    show "shape ?n1 ?n2 (y[k := (y ! k)[0 := k]]) \<and>
          (\<forall>i \<le> ?n1. y[k := (y ! k)[0 := k]] ! 0 ! i = i) \<and>
          (\<forall>j<Suc k. y[k := (y ! k)[0 := k]] ! j ! 0 = j)"
      using a b inv k shape_update [of ?n1 ?n2 y k 0 k] by simp
  qed
  then have "filled s t ?m2 1 0"
    unfolding filled_def by (auto simp: less_Suc_eq_le)
  then show ?thesis unfolding initMatrix_def Let_def .
qed

lemma cellStep_filled:
  assumes "filled s t m (Suc j) i" and "i < length s" and "j < length t"
  shows "filled s t (cellStep s t (Suc j) (Suc i) m) (Suc j) (Suc i)"
proof -
  let ?n1 = "length s" and ?n2 = "length t"
  have sh: "shape ?n1 ?n2 m" using assms(1) by (simp add: filled_def)
  have cells: "m ! j' ! i' = prefixDistance s t i' j'"
    if "j' \<le> ?n2" "i' \<le> ?n1" "j' < Suc j \<or> (j' = Suc j \<and> i' \<le> i) \<or> i' = 0" for j' i'
    using assms(1) that unfolding filled_def by blast
  have v: "min (min (m ! Suc j ! i + 1) (m ! j ! Suc i + 1))
               (m ! j ! i + (if s ! i = t ! j then 0 else 1))
             = prefixDistance s t (Suc i) (Suc j)"
    using cells [of "Suc j" i] cells [of j "Suc i"] cells [of j i] assms(2,3) by simp
  have step: "cellStep s t (Suc j) (Suc i) m
                = m[Suc j := (m ! Suc j)[Suc i := prefixDistance s t (Suc i) (Suc j)]]"
    using v by (simp add: cellStep_def Let_def)
  have "m[Suc j := (m ! Suc j)[Suc i := prefixDistance s t (Suc i) (Suc j)]] ! j' ! i'
          = prefixDistance s t i' j'"
    if "j' \<le> ?n2" "i' \<le> ?n1" "j' < Suc j \<or> (j' = Suc j \<and> i' \<le> Suc i) \<or> i' = 0" for j' i'
    using cell_update [OF sh, of "Suc j" "Suc i" j' i'] cells [of j' i'] that assms(2,3)
    by (auto simp: le_Suc_eq)
  then show ?thesis
    unfolding step filled_def using shape_update [OF sh, of "Suc j"] assms(3) by simp
qed

lemma filled_next_row:
  "filled s t m J (length s) \<Longrightarrow> filled s t m (Suc J) 0"
  unfolding filled_def by (auto simp: less_Suc_eq)

lemma row_filled:
  assumes "filled s t m (Suc j) 0" and "j < length t"
  shows "filled s t (fold (\<lambda>i m'. cellStep s t (Suc j) i m') [1..<length s + 1] m) (Suc (Suc j)) 0"
proof -
  have "filled s t (fold (\<lambda>i m'. cellStep s t (Suc j) i m') [1..<length s + 1] m) (Suc j)
          (length s + 1 - 1)"
  proof (rule fold_upt_invariant [where P = "\<lambda>k m'. filled s t m' (Suc j) (k - 1)"])
    show "filled s t m (Suc j) (1 - 1)" using assms(1) by simp
  next
    show "1 \<le> length s + 1" by simp
  next
    fix k and y :: "nat list list"
    assume "1 \<le> k" "k < length s + 1" "filled s t y (Suc j) (k - 1)"
    then show "filled s t (cellStep s t (Suc j) k y) (Suc j) (Suc k - 1)"
      using cellStep_filled [of s t y j "k - 1"] assms(2) by simp
  qed
  then have "filled s t (fold (\<lambda>i m'. cellStep s t (Suc j) i m') [1..<length s + 1] m) (Suc j)
          (length s)"
    by simp
  then show ?thesis by (rule filled_next_row)
qed

lemma levenshteinDistance_editDistance:
  "levenshteinDistance s t = editDistance s t"
proof -
  let ?m = "fold (\<lambda>j m. fold (\<lambda>i m'. cellStep s t j i m') [1..<length s + 1] m)
              [1..<length t + 1] (initMatrix (length s) (length t))"
  have "filled s t ?m (length t + 1) 0"
  proof (rule fold_upt_invariant [where P = "\<lambda>k m. filled s t m k 0"])
    show "filled s t (initMatrix (length s) (length t)) 1 0" by (rule init_filled)
  next
    show "1 \<le> length t + 1" by simp
  next
    fix k and y :: "nat list list"
    assume "1 \<le> k" "k < length t + 1" "filled s t y k 0"
    then show "filled s t (fold (\<lambda>i m'. cellStep s t k i m') [1..<length s + 1] y) (Suc k) 0"
      using row_filled [of s t y "k - 1"] by simp
  qed
  then have "?m ! length t ! length s = prefixDistance s t (length s) (length t)"
    unfolding filled_def by auto
  then show ?thesis unfolding levenshteinDistance_def editDistance_def Let_def .
qed

lemma str_includes_sublist: "str_includes t s = sublist s t"
  unfolding str_includes_def
  by (induction t) (auto simp: sublist_Cons_right)

text \<open>
  Claim C4. \<open>fuzzyMatch\<close> is true at once when either lowercased, trimmed string contains
  the other; otherwise it is true exactly when \<open>1 - distance / max(len1, len2)\<close> is at least
  0.6, where the distance is the Levenshtein distance of the two strings; and
  \<open>levenshteinDistance\<close> gives 3 for \<open>kitten\<close> and \<open>sitting\<close>.
\<close>

theorem fuzzyMatch_rule:
  "fuzzyMatch a b =
     (let t1 = trim (toLowerCase a); t2 = trim (toLowerCase b)
      in if sublist t2 t1 \<or> sublist t1 t2 then True
         else 1 - real (editDistance t1 t2) / real (max (length t1) (length t2)) \<ge> 6 / 10)
   \<and> levenshteinDistance ''kitten'' ''sitting'' = 3"
proof -
  have "levenshteinDistance ''kitten'' ''sitting'' = 3" by code_simp
  then show ?thesis
    by (simp add: fuzzyMatch_def fuzzyMatchAt_def Let_def str_includes_sublist
          levenshteinDistance_editDistance)
qed

theorem fuzzyMatch_rule_witness:
  "\<not> fuzzyMatch ''Kitten'' '' sitting'' \<and> fuzzyMatch ''Kitten'' ''mitten''
   \<and> fuzzyMatch ''Chapter 1: Overview'' ''chapter 1''"
proof -
  have t: "trim (toLowerCase ''Kitten'') = ''kitten''"
    "trim (toLowerCase '' sitting'') = ''sitting''"
    "trim (toLowerCase ''mitten'') = ''mitten''"
    "trim (toLowerCase ''Chapter 1: Overview'') = ''chapter 1: overview''"
    "trim (toLowerCase ''chapter 1'') = ''chapter 1''"
    by code_simp+
  have s: "\<not> sublist ''sitting'' ''kitten''" "\<not> sublist ''kitten'' ''sitting''"
    "\<not> sublist ''mitten'' ''kitten''" "\<not> sublist ''kitten'' ''mitten''"
    "sublist ''chapter 1'' ''chapter 1: overview''"
    by code_simp+
  have d: "editDistance ''kitten'' ''sitting'' = 3" "editDistance ''kitten'' ''mitten'' = 1"
    by code_simp+
  show ?thesis
    using fuzzyMatch_rule [of "''Kitten''" "'' sitting''"]
      fuzzyMatch_rule [of "''Kitten''" "''mitten''"]
      fuzzyMatch_rule [of "''Chapter 1: Overview''" "''chapter 1''"]
    by (simp add: t s d)
qed

section \<open>The cache: keys and round trip\<close>

lemma example_key: "getCacheKeyWithOptions js exampleFile None = ''notes/a.pdf:10:20''"
  by (simp add: getCacheKeyWithOptions_def fileMetadata_def exampleFile_def string_of_int_def
        digit_char_def)

lemma example_local:
  "localExtractTextFromPDF (getDocument exampleHost) bs
     = Inr ''--- Page 1 ---\<newline>alpha\<newline>\<newline>--- Page 2 ---\<newline>beta''"
proof -
  have "localExtractTextFromPDF (\<lambda>b. Inr (documentOf [''alpha'', ''beta''])) []
          = Inr ''--- Page 1 ---\<newline>alpha\<newline>\<newline>--- Page 2 ---\<newline>beta''"
    by code_simp
  then show ?thesis by (simp add: localExtractTextFromPDF_def exampleHost_def)
qed

lemma example_miss: "getWithKey js emptyAdapter key = None"
  by (simp add: getWithKey_def adapter_exists_def emptyAdapter_def)

lemma example_options: "getProcessingOptions (stat_size exampleFile) None = noOptions"
  by (simp add: getProcessingOptions_def unoptioned_def exampleFile_def)

lemma example_host:
  "readBinary exampleHost f = Inr [37, 80, 68, 70]" "json exampleHost = plainJson"
  by (simp_all add: exampleHost_def)

lemma example_body:
  "parseFileBody exampleHost emptyAdapter exampleFile None =
     (Inr ''--- Page 1 ---\<newline>alpha\<newline>\<newline>--- Page 2 ---\<newline>beta'',
      setWithKey plainJson emptyAdapter ''notes/a.pdf:10:20''
        \<lparr>response = ''--- Page 1 ---\<newline>alpha\<newline>\<newline>--- Page 2 ---\<newline>beta'',
         elapsed_time_ms = 0, entry_options = Some noOptions\<rparr>)"
  unfolding parseFileBody_def Let_def example_key example_miss example_options
  by (simp add: example_local example_host)

text \<open>
  Claim C5 (the code diverges). For the file \<open>notes/a.pdf\<close> of size 10 and modification
  time 20, parsed without options, the facade looks up and stores under the key
  \<open>notes/a.pdf:10:20\<close> itself: the text \<open>path:size:mtime\<close> is not hashed, and the blob is
  written at the path made of that text, whereas the cache's own key for the same file is
  the digest of that text.
\<close>

theorem facade_key_is_not_hashed:
  "getCacheKeyWithOptions plainJson exampleFile None = ''notes/a.pdf:10:20''
   \<and> (\<forall>md5. getCacheKey md5 exampleFile = md5 ''notes/a.pdf:10:20'')
   \<and> dom (blobs (snd (parseFile exampleHost emptyAdapter exampleFile None)))
       = {''.copilot/pdf-cache/notes/a.pdf:10:20.json''}"
proof -
  have "\<forall>md5. getCacheKey md5 exampleFile = md5 ''notes/a.pdf:10:20''"
    by (simp add: getCacheKey_def fileMetadata_def exampleFile_def string_of_int_def digit_char_def)
  moreover have "dom (blobs (snd (parseFile exampleHost emptyAdapter exampleFile None)))
       = {''.copilot/pdf-cache/notes/a.pdf:10:20.json''}"
    unfolding parseFile_def example_body
    by (simp add: setWithKey_def ensureCacheDir_def adapter_exists_def
          adapter_mkdir_def adapter_write_def emptyAdapter_def cacheDir_def getCachePath_def)
  ultimately show ?thesis using example_key by simp
qed

text \<open>
  Claim C6. When the entry survives serialisation and the adapter accepts the operations
  on the cache directory and on the blob of the key, \<open>setWithKey\<close> followed by
  \<open>getWithKey\<close> returns the entry; and \<open>getWithKey\<close> on a key whose blob does not exist
  returns the miss value.
\<close>

theorem cache_round_trip:
  "(parse js (stringify js entry) = Inr (Some entry) \<and> cacheDir \<notin> rejected a
      \<and> getCachePath key \<notin> rejected a
      \<longrightarrow> getWithKey js (setWithKey js a key entry) key = Some entry)
   \<and> (adapter_exists a (getCachePath key) = Inr False \<longrightarrow> getWithKey js a key = None)"
  by (auto simp: getWithKey_def setWithKey_def ensureCacheDir_def adapter_exists_def
        adapter_mkdir_def adapter_write_def adapter_read_def Let_def
      split: sum.splits bool.splits option.splits if_splits)

theorem cache_round_trip_witness:
  "parse plainJson (stringify plainJson \<lparr>response = ''text'', elapsed_time_ms = 0, entry_options = None\<rparr>)
     = Inr (Some \<lparr>response = ''text'', elapsed_time_ms = 0, entry_options = None\<rparr>)
   \<and> cacheDir \<notin> rejected emptyAdapter \<and> getCachePath ''k'' \<notin> rejected emptyAdapter
   \<and> adapter_exists emptyAdapter (getCachePath ''k'') = Inr False
   \<and> getWithKey plainJson
        (setWithKey plainJson emptyAdapter ''k''
           \<lparr>response = ''text'', elapsed_time_ms = 0, entry_options = None\<rparr>) ''k''
       = Some \<lparr>response = ''text'', elapsed_time_ms = 0, entry_options = None\<rparr>
   \<and> getWithKey plainJson emptyAdapter ''k'' = None"
proof -
  have h1: "parse plainJson (stringify plainJson \<lparr>response = ''text'', elapsed_time_ms = 0, entry_options = None\<rparr>)
     = Inr (Some \<lparr>response = ''text'', elapsed_time_ms = 0, entry_options = None\<rparr>)"
    by (simp add: plainJson_def)
  have h2: "cacheDir \<notin> rejected emptyAdapter" "getCachePath ''k'' \<notin> rejected emptyAdapter"
    by (simp_all add: emptyAdapter_def)
  have h3: "adapter_exists emptyAdapter (getCachePath ''k'') = Inr False"
    by (simp add: adapter_exists_def emptyAdapter_def)
  show ?thesis
    using cache_round_trip [of plainJson "\<lparr>response = ''text'', elapsed_time_ms = 0, entry_options = None\<rparr>"
        emptyAdapter "''k''"] h1 h2 h3
    by simp
qed

section \<open>Error containment at the facade\<close>

lemma selective_open_failure:
  "loader bs = Inl (Error reason) \<Longrightarrow>
   extractTextFromPDF mc loader bs opts = Inl (Error (''Selective PDF parsing failed: '' @ reason))"
  by (simp add: extractTextFromPDF_def)

lemma local_open_failure:
  "loader bs = Inl (Error reason) \<Longrightarrow>
   localExtractTextFromPDF loader bs = Inl (Error (''Local PDF parsing failed: '' @ reason))"
  by (simp add: localExtractTextFromPDF_def)

lemma body_open_failure:
  assumes "getWithKey (json host) a (getCacheKeyWithOptions (json host) file options) = None"
    and "readBinary host file = Inr bs"
    and "getDocument host bs = Inl (Error reason)"
  shows "fst (parseFileBody host a file options)
           = Inl (Error ((if getProcessingOptions (stat_size file) options \<noteq> noOptions
                          then ''Selective PDF parsing failed: '' else ''Local PDF parsing failed: '')
                         @ reason))"
  unfolding parseFileBody_def Let_def assms(1)
  using selective_open_failure [of "getDocument host" bs reason, OF assms(3)]
    local_open_failure [of "getDocument host" bs reason, OF assms(3)]
  by (simp add: assms(2))

lemma parseFile_of_body:
  "fst (parseFile host a file options) =
     (case fst (parseFileBody host a file options) of
        Inr t \<Rightarrow> t
      | Inl e \<Rightarrow> ''[Error: Could not extract content from PDF '' @ file_basename file @ ''. ''
                   @ message e @ '']'')"
  by (simp add: parseFile_def split: prod.splits sum.splits)

text \<open>
  Claim C7. On a cache miss, when the vault reads the file and the library cannot open the
  bytes, \<open>parseFile\<close> returns the text
  \<open>[Error: Could not extract content from PDF <name>. <reason>]\<close>, where the reason is the
  parser's own message around the library's; when the vault cannot read the file the reason
  is the vault's message; and whatever the body of \<open>parseFile\<close> does, the call returns a
  text: the body's text when it returns one, and the labelled error text for every error it
  throws.
\<close>

theorem facade_contains_faults:
  "(getWithKey (json host) a (getCacheKeyWithOptions (json host) file options) = None
      \<and> readBinary host file = Inr bs \<and> getDocument host bs = Inl (Error reason)
     \<longrightarrow> fst (parseFile host a file options)
           = ''[Error: Could not extract content from PDF '' @ file_basename file @ ''. ''
               @ (if getProcessingOptions (stat_size file) options \<noteq> noOptions
                  then ''Selective PDF parsing failed: '' else ''Local PDF parsing failed: '')
               @ reason @ '']'')
   \<and> (getWithKey (json host) a (getCacheKeyWithOptions (json host) file options) = None
      \<and> readBinary host file = Inl e'
     \<longrightarrow> fst (parseFile host a file options)
           = ''[Error: Could not extract content from PDF '' @ file_basename file @ ''. ''
               @ message e' @ '']'')
   \<and> (fst (parseFileBody host a file options) = Inl e
     \<longrightarrow> fst (parseFile host a file options)
           = ''[Error: Could not extract content from PDF '' @ file_basename file @ ''. ''
               @ message e @ '']'')
   \<and> (fst (parseFileBody host a file options) = Inr t
     \<longrightarrow> fst (parseFile host a file options) = t)"
proof (intro conjI impI)
  assume "getWithKey (json host) a (getCacheKeyWithOptions (json host) file options) = None
      \<and> readBinary host file = Inr bs \<and> getDocument host bs = Inl (Error reason)"
  then have "fst (parseFileBody host a file options)
           = Inl (Error ((if getProcessingOptions (stat_size file) options \<noteq> noOptions
                          then ''Selective PDF parsing failed: '' else ''Local PDF parsing failed: '')
                         @ reason))"
    using body_open_failure by blast
  then show "fst (parseFile host a file options)
           = ''[Error: Could not extract content from PDF '' @ file_basename file @ ''. ''
               @ (if getProcessingOptions (stat_size file) options \<noteq> noOptions
                  then ''Selective PDF parsing failed: '' else ''Local PDF parsing failed: '')
               @ reason @ '']''"
    by (simp add: parseFile_of_body)
next
  assume "getWithKey (json host) a (getCacheKeyWithOptions (json host) file options) = None
      \<and> readBinary host file = Inl e'"
  then have "fst (parseFileBody host a file options) = Inl e'"
    by (simp add: parseFileBody_def Let_def)
  then show "fst (parseFile host a file options)
           = ''[Error: Could not extract content from PDF '' @ file_basename file @ ''. ''
               @ message e' @ '']''"
    by (simp add: parseFile_of_body)
next
  assume "fst (parseFileBody host a file options) = Inl e"
  then show "fst (parseFile host a file options)
           = ''[Error: Could not extract content from PDF '' @ file_basename file @ ''. ''
               @ message e @ '']''"
    by (simp add: parseFile_of_body)
next
  assume "fst (parseFileBody host a file options) = Inr t"
  then show "fst (parseFile host a file options) = t"
    by (simp add: parseFile_of_body)
qed

lemma broken_host:
  "readBinary brokenHost f = Inr [37, 80, 68, 70]" "json brokenHost = plainJson"
  "getDocument brokenHost bs = Inl (Error ''Invalid PDF structure'')"
  by (simp_all add: brokenHost_def exampleHost_def)

theorem facade_contains_faults_witness:
  "getWithKey (json brokenHost) emptyAdapter (getCacheKeyWithOptions (json brokenHost) exampleFile None) = None
   \<and> readBinary brokenHost exampleFile = Inr [37, 80, 68, 70]
   \<and> getDocument brokenHost [37, 80, 68, 70] = Inl (Error ''Invalid PDF structure'')
   \<and> fst (parseFileBody brokenHost emptyAdapter exampleFile None)
       = Inl (Error ''Local PDF parsing failed: Invalid PDF structure'')
   \<and> fst (parseFile brokenHost emptyAdapter exampleFile None)
       = ''[Error: Could not extract content from PDF a. Local PDF parsing failed: Invalid PDF structure]''
   \<and> fst (parseFileBody exampleHost emptyAdapter exampleFile None)
       = Inr ''--- Page 1 ---\<newline>alpha\<newline>\<newline>--- Page 2 ---\<newline>beta''
   \<and> fst (parseFile exampleHost emptyAdapter exampleFile None)
       = ''--- Page 1 ---\<newline>alpha\<newline>\<newline>--- Page 2 ---\<newline>beta''"
proof -
  have h1: "getWithKey (json brokenHost) emptyAdapter
              (getCacheKeyWithOptions (json brokenHost) exampleFile None) = None"
    by (rule example_miss)
  have h2: "readBinary brokenHost exampleFile = Inr [37, 80, 68, 70]"
    and h3: "getDocument brokenHost [37, 80, 68, 70] = Inl (Error ''Invalid PDF structure'')"
    by (simp_all add: broken_host)
  have h4: "fst (parseFileBody brokenHost emptyAdapter exampleFile None)
              = Inl (Error ''Local PDF parsing failed: Invalid PDF structure'')"
    unfolding parseFileBody_def Let_def h1 example_options
    by (simp add: broken_host localExtractTextFromPDF_def)
  have h5: "fst (parseFileBody exampleHost emptyAdapter exampleFile None)
              = Inr ''--- Page 1 ---\<newline>alpha\<newline>\<newline>--- Page 2 ---\<newline>beta''"
    by (simp add: example_body)
  have name: "file_basename exampleFile = ''a''"
    by (simp add: exampleFile_def)
  have r1: "fst (parseFile brokenHost emptyAdapter exampleFile None)
       = ''[Error: Could not extract content from PDF a. Local PDF parsing failed: Invalid PDF structure]''"
    using facade_contains_faults [where host = brokenHost and a = emptyAdapter
        and ?file = exampleFile and options = None and bs = "[37, 80, 68, 70]"
        and reason = "''Invalid PDF structure''"]
      h1 h2 h3 name example_options by simp
  have r2: "fst (parseFile exampleHost emptyAdapter exampleFile None)
       = ''--- Page 1 ---\<newline>alpha\<newline>\<newline>--- Page 2 ---\<newline>beta''"
    using facade_contains_faults [where host = exampleHost and a = emptyAdapter
        and ?file = exampleFile and options = None
        and t = "''--- Page 1 ---\<newline>alpha\<newline>\<newline>--- Page 2 ---\<newline>beta''"] h5 by blast
  from h1 h2 h3 h4 h5 r1 r2 show ?thesis by blast
qed

section \<open>Determinism\<close>

lemma termScore_cong:
  "content p = content q \<Longrightarrow> sections p = sections q \<Longrightarrow> termScore mc p t = termScore mc q t"
proof -
  assume c: "content p = content q" and s: "sections p = sections q"
  show ?thesis unfolding termScore_def c s ..
qed

lemma scoreLoop_cong:
  "content p = content q \<Longrightarrow> sections p = sections q \<Longrightarrow> scoreLoop mc p ts s = scoreLoop mc q ts s"
proof (induction ts arbitrary: s)
  case Nil
  show ?case by simp
next
  case (Cons t ts)
  have "termScore mc p t = termScore mc q t"
    using Cons.prems by (rule termScore_cong)
  with Cons show ?case by (simp split: sum.splits)
qed

lemma relevance_cong:
  assumes "content p = content q" "sections p = sections q" "metadata p = metadata q"
  shows "calculateEnhancedRelevance mc p terms = calculateEnhancedRelevance mc q terms"
  unfolding calculateEnhancedRelevance_def scoreLoop_cong [OF assms(1,2)] assms(1) assms(3) ..

lemma fst_outcome:
  "fst (case r of Inl e \<Rightarrow> (Inl e, u) | Inr t \<Rightarrow> (Inr t, v t)) = r"
  by (cases r) simp_all

lemma body_ignores_adapter:
  assumes "getWithKey (json host) a1 (getCacheKeyWithOptions (json host) file options) = None"
      and "getWithKey (json host) a2 (getCacheKeyWithOptions (json host) file options) = None"
  shows "fst (parseFileBody host a1 file options) = fst (parseFileBody host a2 file options)"
  unfolding parseFileBody_def Let_def assms
  by (cases "readBinary host file") (simp_all add: fst_outcome)

text \<open>
  Claim C9. Two runs of \<open>parseFile\<close> on the same file and options with the same
  collaborators return the same text whenever the cache misses in both, whatever else the
  two states of the adapter hold; and the relevance score of a page is determined by the
  page's content, sections and metadata and the search terms.
\<close>

theorem extraction_deterministic:
  "(getWithKey (json host) a1 (getCacheKeyWithOptions (json host) file options) = None
      \<and> getWithKey (json host) a2 (getCacheKeyWithOptions (json host) file options) = None
     \<longrightarrow> fst (parseFile host a1 file options) = fst (parseFile host a2 file options))
   \<and> (content p = content q \<and> sections p = sections q \<and> metadata p = metadata q
     \<longrightarrow> calculateEnhancedRelevance mc p terms = calculateEnhancedRelevance mc q terms)"
proof (intro conjI impI)
  assume "getWithKey (json host) a1 (getCacheKeyWithOptions (json host) file options) = None
      \<and> getWithKey (json host) a2 (getCacheKeyWithOptions (json host) file options) = None"
  then have "fst (parseFileBody host a1 file options) = fst (parseFileBody host a2 file options)"
    using body_ignores_adapter by blast
  then show "fst (parseFile host a1 file options) = fst (parseFile host a2 file options)"
    by (simp add: parseFile_of_body)
next
  assume "content p = content q \<and> sections p = sections q \<and> metadata p = metadata q"
  then show "calculateEnhancedRelevance mc p terms = calculateEnhancedRelevance mc q terms"
    using relevance_cong by blast
qed


theorem extraction_deterministic_witness:
  "getWithKey (json exampleHost) emptyAdapter
       (getCacheKeyWithOptions (json exampleHost) exampleFile None) = None
   \<and> getWithKey (json exampleHost) (emptyAdapter\<lparr>rejected := {cacheDir}\<rparr>)
       (getCacheKeyWithOptions (json exampleHost) exampleFile None) = None
   \<and> fst (parseFile exampleHost emptyAdapter exampleFile None)
       = fst (parseFile exampleHost (emptyAdapter\<lparr>rejected := {cacheDir}\<rparr>) exampleFile None)
   \<and> calculateEnhancedRelevance literalEngine
        \<lparr>content = ''x'', sections = [], hasImages = False, metadata = analyzePageMetadata ''x'' []\<rparr>
        [''x'']
       = calculateEnhancedRelevance literalEngine
           \<lparr>content = ''x'', sections = [], hasImages = True, metadata = analyzePageMetadata ''x'' []\<rparr>
           [''x'']"
proof -
  have h1: "getWithKey (json exampleHost) emptyAdapter
              (getCacheKeyWithOptions (json exampleHost) exampleFile None) = None"
    by (rule example_miss)
  have h2: "getWithKey (json exampleHost) (emptyAdapter\<lparr>rejected := {cacheDir}\<rparr>)
              (getCacheKeyWithOptions (json exampleHost) exampleFile None) = None"
    by (simp add: getWithKey_def adapter_exists_def emptyAdapter_def Let_def)
  show ?thesis
    using extraction_deterministic [of exampleHost emptyAdapter exampleFile None
        "emptyAdapter\<lparr>rejected := {cacheDir}\<rparr>"
        "\<lparr>content = ''x'', sections = [], hasImages = False, metadata = analyzePageMetadata ''x'' []\<rparr>"
        "\<lparr>content = ''x'', sections = [], hasImages = True, metadata = analyzePageMetadata ''x'' []\<rparr>"
        literalEngine "[''x'']"] h1 h2
    by simp
qed

section \<open>Inline options: keys and values\<close>












text \<open>A value of \<open>max\<close> without digits is stored as not-a-number.\<close>

lemma nan_is_stored:
  "parseEmbedOptions (Some ''max:abc'') = Inr (emptyEmbedOptions\<lparr>opt_maxPages := Some NotANumber\<rparr>)"
proof -
  have "toLowerCase (partKey ''max:abc'') = ''max''" "partValue ''max:abc'' = Some ''abc''"
    "splitOn (CHR '','') ''max:abc'' = [''max:abc'']"
    by code_simp+
  moreover have "parseInt (Some ''abc'') = NotANumber"
    by (simp add: parseInt_def parseDigits_def isDigit_def isSpace_def Let_def)
  ultimately show ?thesis
    by (simp add: parseEmbedOptions_def applyPart_def Let_def)
qed

text \<open>A \<open>pages\<close> part without a colon has no value to match and throws.\<close>

lemma pages_without_value_throws:
  "parseEmbedOptions (Some ''pages'')
     = Inl (Error ''Cannot read properties of undefined (reading 'match')'')"
proof -
  have "toLowerCase (partKey ''pages'') = ''pages''" "partValue ''pages'' = None"
    "splitOn (CHR '','') ''pages'' = [''pages'']"
    by code_simp+
  then show ?thesis
    by (simp add: parseEmbedOptions_def applyPart_def Let_def)
qed

text \<open>Above \<open>2^53\<close> the stored number is the nearest double, not the digits' own value.\<close>

lemma large_number_is_rounded:
  "parseEmbedOptions (Some ''max:9007199254740993'')
     = Inr (emptyEmbedOptions\<lparr>opt_maxPages := Some (Finite 9007199254740992)\<rparr>)"
proof -
  have "toLowerCase (partKey ''max:9007199254740993'') = ''max''"
    "partValue ''max:9007199254740993'' = Some ''9007199254740993''"
    "splitOn (CHR '','') ''max:9007199254740993'' = [''max:9007199254740993'']"
    by code_simp+
  moreover have "parseInt (Some ''9007199254740993'') = Finite 9007199254740992"
    by (simp add: parseInt_def parseDigits_def roundToDouble_def digitsValue_def digitValue_def
          isDigit_def isSpace_def Let_def)
  ultimately show ?thesis
    by (simp add: parseEmbedOptions_def applyPart_def Let_def)
qed



end
